theory Spec2Isabelle
  imports Main "HOL-Library.AList"
begin

section \<open>The configuration document (services/config.py)\<close>

text \<open>
  \<^verbatim>\<open>config.json\<close> is a JSON object; the fields below are the ones the monitoring and
  purchase engine reads or writes. A JSON \<^verbatim>\<open>null\<close> is \<open>None\<close>. Star amounts are whole
  numbers (Python \<^verbatim>\<open>int\<close>, unbounded).
\<close>

record userbot_config =
  API_ID :: "int option"
  API_HASH :: "string option"
  PHONE :: "string option"
  USER_ID :: "int option"
  FIRST_NAME :: "string option"
  BALANCE :: int
  ENABLED :: bool

record target =
  GIFT_ID :: string
  GIFT_NAME :: string
  MAX_PRICE :: int
  TARGET_ENABLED :: bool

record config =
  ACTIVE :: bool
  TARGET_USER_ID :: "int option"
  TARGET_CHAT_ID :: "string option"
  TARGETS :: "target list"
  USERBOT :: userbot_config

text \<open>Python truthiness of an optional number and of an optional string.\<close>

definition truthy_int :: "int option \<Rightarrow> bool" where
  "truthy_int v = (case v of None \<Rightarrow> False | Some n \<Rightarrow> n \<noteq> 0)"

definition truthy_str :: "string option \<Rightarrow> bool" where
  "truthy_str v = (case v of None \<Rightarrow> False | Some s \<Rightarrow> s \<noteq> [])"

text \<open>
  \<^verbatim>\<open>simple_validate_config\<close>: missing fields are filled with defaults (the record has them
  all) and only targets with a non-empty \<^verbatim>\<open>GIFT_ID\<close> and \<^verbatim>\<open>GIFT_NAME\<close> are kept.
\<close>

definition simple_validate_config :: "config \<Rightarrow> config" where
  "simple_validate_config c =
     c\<lparr>TARGETS := filter (\<lambda>t. GIFT_ID t \<noteq> [] \<and> GIFT_NAME t \<noteq> []) (TARGETS c)\<rparr>"

text \<open>\<^verbatim>\<open>enabled_targets = [t for t in targets if t.get("ENABLED", True)]\<close>\<close>

definition enabled_targets :: "config \<Rightarrow> target list" where
  "enabled_targets c = filter TARGET_ENABLED (TARGETS c)"

section \<open>The platform and the process state\<close>

text \<open>
  The replies of the platform are not computed by the program: they are given as scripts,
  the \<open>i\<close>-th call of an operation being answered by the script at \<open>i\<close>.
  \<^item> \<^verbatim>\<open>client.get_me()\<close> succeeds or raises;
  \<^item> \<^verbatim>\<open>client.get_stars_balance()\<close> returns the balance as an \<^verbatim>\<open>int\<close> or as a
    \<^verbatim>\<open>float\<close>, raises \<^verbatim>\<open>RPCError\<close>, or fails otherwise (another exception, or a reply
    that is not a number);
  \<^item> \<^verbatim>\<open>client.send_resold_gift(...)\<close> returns (a message or \<^verbatim>\<open>None\<close>) or raises one of the
    exceptions the purchase routine tells apart;
  \<^item> \<^verbatim>\<open>client.search_gifts_for_resale(gift_id, order=PRICE)\<close> returns a generator.
  The configuration file and \<^verbatim>\<open>bot.send_message\<close> are taken to work: reading and writing
  the file and sending a message do not raise.
\<close>

text \<open>
  A Python \<^verbatim>\<open>float\<close>: \<open>Finite m e\<close> is the number \<open>m * 2 ^ e\<close> (every finite double
  has this form, with \<open>\<bar>m\<bar> < 2 ^ 53\<close>), \<open>NotFinite\<close> is an infinity or a NaN.
\<close>

datatype py_float = Finite int int | NotFinite

datatype balance_reply = StarsInt int | StarsFloat py_float | StarsRPCError | StarsError

datatype send_reply =
    Sent bool
  | FloodWait nat
  | BadRequest string
  | Forbidden
  | AuthKeyUnregistered
  | RPCError
  | OtherError

datatype recipient = RecipientUser int | RecipientChat string

text \<open>The messages the purchase worker sends to the operator with \<^verbatim>\<open>bot.send_message\<close>.\<close>

datatype notice =
    SenderInactive
  | RecipientNotSet
  | GiftSent string int
  | NotEnoughStars int int
  | MainMenu

text \<open>A normalised listing (\<^verbatim>\<open>normalize_resale_gift\<close>) and the cache of services/gifts_manager.py.
  The fields \<^verbatim>\<open>id\<close>, \<^verbatim>\<open>gift_id\<close> and \<^verbatim>\<open>attributes\<close> of a listing and the
  \<^verbatim>\<open>last_update\<close> time of a cache entry are read by no function below and are left out.
  An absent or empty \<^verbatim>\<open>name\<close> or \<^verbatim>\<open>link\<close> is the empty string (both are falsy).\<close>

record gift_data =
  price :: int
  name :: string
  link :: string
  resale_ton_only :: bool
  available_for_stars :: bool

text \<open>A listing as the platform library returns it (the attributes the normalisation
  reads), and one step of the asynchronous generator of search results: it yields a
  listing or raises; the end of the list is the end of the iteration.\<close>

record resale_gift =
  last_resale_star_count :: "int option"
  raw_name :: string
  raw_link :: string
  raw_resale_ton_only :: bool

datatype 'a gen_step = Yield 'a | Raise

record target_info =
  gift_id :: int
  gift_name :: string
  max_price :: int

record cache_entry =
  gift_data :: "gift_data option"
  target_info :: target_info

record world =
  config_json :: config
  userbot_client :: bool
  userbot_started :: bool
  current_user_id :: "int option"
  is_connected :: bool
  targets_cache :: "(nat \<times> cache_entry) list"
  get_me_reply :: "nat \<Rightarrow> bool"
  get_me_calls :: nat
  get_stars_balance_reply :: "nat \<Rightarrow> balance_reply"
  get_stars_balance_calls :: nat
  send_resold_gift_reply :: "nat \<Rightarrow> send_reply"
  send_resold_gift_log :: "(string \<times> recipient \<times> int) list"
  search_gifts_for_resale_reply :: "nat \<Rightarrow> int \<Rightarrow> resale_gift gen_step list"
  search_gifts_for_resale_calls :: nat
  sent_messages :: "notice list"

text \<open>
  \<open>config_json\<close> is the content of the file; \<open>userbot_client\<close> (the client is not
  \<^verbatim>\<open>None\<close>), \<open>userbot_started\<close>, \<open>current_user_id\<close> are the module variables of
  services/userbot.py and \<open>is_connected\<close> the client's connection flag;
  \<open>targets_cache\<close> is the dictionary of services/gifts_manager.py in insertion order;
  \<open>send_resold_gift_log\<close> lists the purchase calls issued so far (link, recipient, star
  count) and \<open>sent_messages\<close> the operator messages sent so far, oldest first.
\<close>

definition load_config :: "world \<Rightarrow> config" where
  "load_config w = config_json w"

definition save_config :: "config \<Rightarrow> world \<Rightarrow> world" where
  "save_config c w = w\<lparr>config_json := c\<rparr>"

text \<open>\<^verbatim>\<open>get_valid_config\<close> validates in place and compares the result with itself, so it
  never writes the file back.\<close>

definition get_valid_config :: "world \<Rightarrow> config" where
  "get_valid_config w = simple_validate_config (load_config w)"

section \<open>The sender session (services/userbot.py)\<close>

definition is_userbot_active :: "int \<Rightarrow> world \<Rightarrow> bool" where
  "is_userbot_active user_id w =
     (if \<not> userbot_client w \<or> \<not> userbot_started w \<or> current_user_id w \<noteq> Some user_id
      then False
      else if \<not> is_connected w then False
      else True)"

definition reset_userbot_state :: "world \<Rightarrow> world" where
  "reset_userbot_state w =
     w\<lparr>userbot_client := False, userbot_started := False, current_user_id := None,
       is_connected := False\<rparr>"

text \<open>\<^verbatim>\<open>get_userbot_client\<close>: the result says whether a client was returned.\<close>

definition get_userbot_client :: "int \<Rightarrow> world \<Rightarrow> bool \<times> world" where
  "get_userbot_client user_id w =
     (if \<not> is_userbot_active user_id w then (False, w)
      else
        let ok = get_me_reply w (get_me_calls w);
            w1 = w\<lparr>get_me_calls := Suc (get_me_calls w)\<rparr>
        in if ok then (True, w1) else (False, reset_userbot_state w1))"

section \<open>The balance module (services/balance.py)\<close>

text \<open>The number of binary digits of a positive integer (\<^verbatim>\<open>int.bit_length\<close>).\<close>

function bit_length :: "int \<Rightarrow> nat" where
  "bit_length n = (if n \<le> 0 then 0 else Suc (bit_length (n div 2)))"
  by pat_completeness auto
termination
  by (relation "measure nat") auto

declare bit_length.simps [simp del]

text \<open>
  \<^verbatim>\<open>float(n)\<close> for an \<^verbatim>\<open>int\<close>: exact up to 53 binary digits, otherwise rounded to 53
  digits, a tie going to the even neighbour; \<open>None\<close> is \<^verbatim>\<open>OverflowError\<close> (the rounded
  value is \<open>2 ^ 1024\<close> or more).
\<close>

definition py_float_of_int :: "int \<Rightarrow> py_float option" where
  "py_float_of_int n =
     (let a = \<bar>n\<bar>; k = bit_length a
      in if k \<le> 53 then Some (Finite n 0)
         else
           let e = k - 53;
               q = a div 2 ^ e;
               r = a mod 2 ^ e;
               half = 2 ^ (e - 1);
               q' = (if r > half \<or> (r = half \<and> odd q) then q + 1 else q)
           in if q' * 2 ^ e \<ge> 2 ^ 1024 then None
              else Some (Finite (sgn n * q') (int e)))"

text \<open>\<^verbatim>\<open>int(x)\<close> for a \<^verbatim>\<open>float\<close>: truncation towards zero; \<open>None\<close> is the
  \<^verbatim>\<open>ValueError\<close> or \<^verbatim>\<open>OverflowError\<close> of a NaN or an infinity.\<close>

fun py_int_of_float :: "py_float \<Rightarrow> int option" where
  "py_int_of_float NotFinite = None"
| "py_int_of_float (Finite m e) =
     Some (if e \<ge> 0 then m * 2 ^ nat e else sgn m * (\<bar>m\<bar> div 2 ^ nat (- e)))"

text \<open>
  \<^verbatim>\<open>get_sender_stars_balance\<close>: the balance as a \<^verbatim>\<open>float\<close>, \<open>None\<close> when it raises.
  On a failure that is not an \<^verbatim>\<open>RPCError\<close> (the overflow of \<^verbatim>\<open>float(balance)\<close> is one)
  the source probes the session with one more \<^verbatim>\<open>get_me\<close> before raising.
\<close>

definition get_sender_stars_balance :: "int \<Rightarrow> world \<Rightarrow> py_float option \<times> world" where
  "get_sender_stars_balance user_id w =
     (if \<not> is_userbot_active user_id w then (None, w)
      else
        case get_userbot_client user_id w of
          (False, w1) \<Rightarrow> (None, w1)
        | (True, w1) \<Rightarrow>
            if \<not> is_connected w1 then (None, w1)
            else
              let r = get_stars_balance_reply w1 (get_stars_balance_calls w1);
                  w2 = w1\<lparr>get_stars_balance_calls := Suc (get_stars_balance_calls w1)\<rparr>
              in case r of
                   StarsInt n \<Rightarrow>
                     (case py_float_of_int n of
                        Some balance_float \<Rightarrow> (Some balance_float, w2)
                      | None \<Rightarrow> (None, w2\<lparr>get_me_calls := Suc (get_me_calls w2)\<rparr>))
                 | StarsFloat balance_float \<Rightarrow> (Some balance_float, w2)
                 | StarsRPCError \<Rightarrow> (None, w2)
                 | StarsError \<Rightarrow> (None, w2\<lparr>get_me_calls := Suc (get_me_calls w2)\<rparr>))"

text \<open>
  \<^verbatim>\<open>int(await get_sender_stars_balance(user_id))\<close> as every caller has it, inside one
  \<^verbatim>\<open>try\<close>: \<open>None\<close> when the query or the conversion raises.
\<close>

definition stars_balance_int :: "int \<Rightarrow> world \<Rightarrow> int option \<times> world" where
  "stars_balance_int user_id w =
     (case get_sender_stars_balance user_id w of
        (None, w1) \<Rightarrow> (None, w1)
      | (Some balance_float, w1) \<Rightarrow> (py_int_of_float balance_float, w1))"

definition set_balance :: "int \<Rightarrow> config \<Rightarrow> config" where
  "set_balance b c = c\<lparr>USERBOT := (USERBOT c)\<lparr>BALANCE := b\<rparr>\<rparr>"

text \<open>The user id \<^verbatim>\<open>refresh_balance\<close> works with: its argument, or the configuration's
  \<^verbatim>\<open>USER_ID\<close> when the argument is \<^verbatim>\<open>None\<close>; \<open>None\<close> when neither is there.\<close>

definition effective_user_id :: "int option \<Rightarrow> config \<Rightarrow> int option" where
  "effective_user_id user_id config =
     (case user_id of
        Some u \<Rightarrow> Some u
      | None \<Rightarrow> if truthy_int (USER_ID (USERBOT config)) then USER_ID (USERBOT config) else None)"

definition has_session :: "config \<Rightarrow> bool" where
  "has_session config =
     (truthy_int (API_ID (USERBOT config)) \<and> truthy_str (API_HASH (USERBOT config)) \<and>
      truthy_str (PHONE (USERBOT config)))"

definition refresh_balance :: "int option \<Rightarrow> world \<Rightarrow> int \<times> world" where
  "refresh_balance user_id w =
     (let config = load_config w in
      case effective_user_id user_id config of
        None \<Rightarrow> (0, save_config (set_balance 0 config) w)
      | Some uid \<Rightarrow>
          if \<not> has_session config then (0, save_config (set_balance 0 config) w)
          else if \<not> is_userbot_active uid w then (0, save_config (set_balance 0 config) w)
          else
            case stars_balance_int uid w of
              (Some balance_int, w1) \<Rightarrow>
                (balance_int, save_config (set_balance balance_int config) w1)
            | (None, w1) \<Rightarrow> (0, save_config (set_balance 0 config) w1))"

text \<open>\<^verbatim>\<open>change_balance_userbot(delta, user_id)\<close>; the source never reads \<^verbatim>\<open>user_id\<close>.\<close>

definition change_balance_userbot :: "int \<Rightarrow> world \<Rightarrow> int \<times> world" where
  "change_balance_userbot delta w =
     (let config = load_config w;
          current = BALANCE (USERBOT config);
          new_balance = max 0 (current + delta)
      in (new_balance, save_config (set_balance new_balance config) w))"

definition get_balance_from_config :: "world \<Rightarrow> int" where
  "get_balance_from_config w = BALANCE (USERBOT (load_config w))"

section \<open>The purchase routine (services/buy_userbot.py)\<close>

text \<open>
  The three branches of the balance check after a purchase call, on
  \<^verbatim>\<open>balance_diff = balance_before - balance_after\<close>.
\<close>

datatype verdict = PurchaseSuccess | PurchaseSuccessWarning | PurchaseFailed

definition classify_balance_diff :: "int \<Rightarrow> int \<Rightarrow> verdict" where
  "classify_balance_diff expected_price balance_diff =
     (if \<bar>balance_diff - expected_price\<bar> \<le> 1 then PurchaseSuccess
      else if balance_diff > 0 then PurchaseSuccessWarning
      else PurchaseFailed)"

text \<open>The recipient passed to the platform: the user id, or the channel name without leading
  \<^verbatim>\<open>@\<close>, when exactly one of them is set.\<close>

definition purchase_recipient :: "int option \<Rightarrow> string option \<Rightarrow> recipient option" where
  "purchase_recipient target_user_id target_chat_id =
     (if truthy_int target_user_id \<and> \<not> truthy_str target_chat_id
      then map_option RecipientUser target_user_id
      else if truthy_str target_chat_id \<and> \<not> truthy_int target_user_id
      then map_option (\<lambda>s. RecipientChat (dropWhile (\<lambda>c. c = CHR ''@'') s)) target_chat_id
      else None)"

text \<open>
  The loop \<^verbatim>\<open>for attempt in range(1, retries + 1)\<close>, by the number of attempts left.
  The attempt number only sets the length of a sleep, which changes no state.
\<close>

fun purchase_attempts ::
  "int \<Rightarrow> string \<Rightarrow> recipient \<Rightarrow> int \<Rightarrow> int \<Rightarrow> int \<Rightarrow> nat \<Rightarrow> world \<Rightarrow> bool \<times> world" where
  "purchase_attempts session_user_id gift_link rcp expected_price cached_balance balance_before 0 w =
     (False, w)"
| "purchase_attempts session_user_id gift_link rcp expected_price cached_balance balance_before (Suc n) w =
     (let r = send_resold_gift_reply w (length (send_resold_gift_log w));
          w1 = w\<lparr>send_resold_gift_log := send_resold_gift_log w @ [(gift_link, rcp, expected_price)]\<rparr>
      in case r of
           Sent _ \<Rightarrow>
             (case stars_balance_int session_user_id w1 of
                (None, w2) \<Rightarrow>
                  purchase_attempts session_user_id gift_link rcp expected_price cached_balance
                    balance_before n w2
              | (Some balance_after, w2) \<Rightarrow>
                  (case classify_balance_diff expected_price (balance_before - balance_after) of
                     PurchaseSuccess \<Rightarrow>
                       (True, snd (change_balance_userbot (balance_after - cached_balance) w2))
                   | PurchaseSuccessWarning \<Rightarrow>
                       (True, snd (change_balance_userbot (balance_after - cached_balance) w2))
                   | PurchaseFailed \<Rightarrow>
                       purchase_attempts session_user_id gift_link rcp expected_price cached_balance
                         balance_before n w2))
         | FloodWait _ \<Rightarrow>
             purchase_attempts session_user_id gift_link rcp expected_price cached_balance
               balance_before n w1
         | BadRequest _ \<Rightarrow> (False, w1)
         | Forbidden \<Rightarrow> (False, w1)
         | AuthKeyUnregistered \<Rightarrow> (False, w1)
         | RPCError \<Rightarrow>
             purchase_attempts session_user_id gift_link rcp expected_price cached_balance
               balance_before n w1
         | OtherError \<Rightarrow>
             purchase_attempts session_user_id gift_link rcp expected_price cached_balance
               balance_before n w1)"

definition buy_resold_gift_userbot ::
  "int \<Rightarrow> string \<Rightarrow> int option \<Rightarrow> string option \<Rightarrow> int \<Rightarrow> nat \<Rightarrow> world \<Rightarrow> bool \<times> world" where
  "buy_resold_gift_userbot session_user_id gift_link target_user_id target_chat_id expected_price
       retries w =
     (let config = get_valid_config w;
          cached_balance = BALANCE (USERBOT config)
      in if cached_balance < expected_price
         then (False, save_config (config\<lparr>USERBOT := (USERBOT config)\<lparr>ENABLED := False\<rparr>\<rparr>) w)
         else
           case get_userbot_client session_user_id w of
             (False, w1) \<Rightarrow> (False, w1)
           | (True, w1) \<Rightarrow>
               (case purchase_recipient target_user_id target_chat_id of
                  None \<Rightarrow> (False, w1)
                | Some rcp \<Rightarrow>
                    (case stars_balance_int session_user_id w1 of
                       (None, w2) \<Rightarrow> (False, w2)
                     | (Some balance_before, w2) \<Rightarrow>
                         purchase_attempts session_user_id gift_link rcp expected_price
                           cached_balance balance_before retries w2)))"

section \<open>Listing search (services/gifts_userbot.py)\<close>

definition normalize_resale_gift :: "resale_gift \<Rightarrow> gift_data" where
  "normalize_resale_gift gift =
     (let star_price = last_resale_star_count gift
      in \<lparr>price = (case star_price of None \<Rightarrow> 0 | Some p \<Rightarrow> p),
          name = raw_name gift,
          link = raw_link gift,
          resale_ton_only = raw_resale_ton_only gift,
          available_for_stars = (star_price \<noteq> None \<and> \<not> raw_resale_ton_only gift)\<rparr>)"

text \<open>
  The loop \<^verbatim>\<open>async for gift in gifts_generator\<close> with its counter \<^verbatim>\<open>checked\<close>: the
  result is what the function returns from inside the loop (or \<open>None\<close> at the end of the
  generator, or when the generator raises) together with the number of listings taken
  from the generator.
\<close>

fun scan_gifts :: "int option \<Rightarrow> resale_gift gen_step list \<Rightarrow> nat \<Rightarrow> gift_data option \<times> nat" where
  "scan_gifts price_limit [] checked = (None, checked)"
| "scan_gifts price_limit (Raise # rest) checked = (None, checked)"
| "scan_gifts price_limit (Yield gift # rest) checked =
     (let normalized = normalize_resale_gift gift
      in if available_for_stars normalized \<and> price normalized > 0
         then (if (case price_limit of None \<Rightarrow> True | Some m \<Rightarrow> price normalized \<le> m)
               then (Some normalized, checked + 1)
               else (None, checked + 1))
         else scan_gifts price_limit rest (checked + 1))"

definition find_cheapest_gift_by_id ::
  "int \<Rightarrow> int \<Rightarrow> int option \<Rightarrow> world \<Rightarrow> gift_data option \<times> world" where
  "find_cheapest_gift_by_id user_id gid price_limit w =
     (if \<not> is_userbot_active user_id w then (None, w)
      else if \<not> ENABLED (USERBOT (get_valid_config w)) then (None, w)
      else
        case get_userbot_client user_id w of
          (False, w1) \<Rightarrow> (None, w1)
        | (True, w1) \<Rightarrow>
            let gifts_generator =
                  search_gifts_for_resale_reply w1 (search_gifts_for_resale_calls w1) gid;
                w2 = w1\<lparr>search_gifts_for_resale_calls := Suc (search_gifts_for_resale_calls w1)\<rparr>
            in (fst (scan_gifts price_limit gifts_generator 0), w2))"

section \<open>The listing cache and its poller (services/gifts_manager.py)\<close>

text \<open>
  \<^verbatim>\<open>int(gift_id)\<close> on a string, for ASCII text: surrounding white space (tab, line
  feed, vertical tab, form feed, carriage return, space), an optional sign, decimal digits
  with single underscores between them. \<open>None\<close> is \<^verbatim>\<open>ValueError\<close>.
\<close>

definition py_space :: "char \<Rightarrow> bool" where
  "py_space c = (let n = (of_char c :: nat) in (9 \<le> n \<and> n \<le> 13) \<or> n = 32)"

definition py_digit :: "char \<Rightarrow> bool" where
  "py_digit c = (let n = (of_char c :: nat) in 48 \<le> n \<and> n \<le> 57)"

fun digits_value :: "string \<Rightarrow> int \<Rightarrow> bool \<Rightarrow> int option" where
  "digits_value [] acc after_digit = (if after_digit then Some acc else None)"
| "digits_value (c # cs) acc after_digit =
     (if py_digit c then digits_value cs (10 * acc + (of_char c - 48)) True
      else if c = CHR ''_'' \<and> after_digit \<and> cs \<noteq> [] then digits_value cs acc False
      else None)"

definition py_int :: "string \<Rightarrow> int option" where
  "py_int s =
     (let t = rev (dropWhile py_space (rev (dropWhile py_space s)))
      in case t of
           [] \<Rightarrow> None
         | c # cs \<Rightarrow>
             if c = CHR ''-'' then map_option uminus (digits_value cs 0 False)
             else if c = CHR ''+'' then digits_value cs 0 False
             else digits_value t 0 False)"

definition update_target_cache :: "int \<Rightarrow> nat \<Rightarrow> target \<Rightarrow> world \<Rightarrow> gift_data option \<times> world" where
  "update_target_cache user_id target_index target w =
     (if GIFT_ID target = [] then (None, w)
      else
        case py_int (GIFT_ID target) of
          None \<Rightarrow> (None, w)
        | Some gid \<Rightarrow>
            (case find_cheapest_gift_by_id user_id gid (Some (MAX_PRICE target)) w of
               (found, w1) \<Rightarrow>
                 (found,
                  w1\<lparr>targets_cache :=
                       AList.update target_index
                         \<lparr>gift_data = found,
                          target_info = \<lparr>gift_id = gid, gift_name = GIFT_NAME target,
                                         max_price = MAX_PRICE target\<rparr>\<rparr>
                         (targets_cache w1)\<rparr>)))"

definition clear_targets_cache :: "world \<Rightarrow> world" where
  "clear_targets_cache w = w\<lparr>targets_cache := []\<rparr>"

text \<open>A cached listing with the data of its target added, as
  \<^verbatim>\<open>get_all_available_target_gifts\<close> returns it.\<close>

record target_gift = gift_data +
  target_index :: nat
  target_gift_name :: string
  target_max_price :: int

definition enhanced_gift :: "nat \<Rightarrow> cache_entry \<Rightarrow> gift_data \<Rightarrow> target_gift" where
  "enhanced_gift i cache_entry g =
     \<lparr>price = price g, name = name g, link = link g, resale_ton_only = resale_ton_only g,
      available_for_stars = available_for_stars g,
      target_index = i,
      target_gift_name = gift_name (target_info cache_entry),
      target_max_price = max_price (target_info cache_entry)\<rparr>"

definition get_all_available_target_gifts :: "world \<Rightarrow> target_gift list" where
  "get_all_available_target_gifts w =
     sort_key price
       (concat (map (\<lambda>(i, cache_entry).
                       case gift_data cache_entry of
                         None \<Rightarrow> []
                       | Some g \<Rightarrow> [enhanced_gift i cache_entry g])
                    (targets_cache w)))"

text \<open>The cache states the program can be in: it starts empty, \<^verbatim>\<open>update_target_cache\<close>
  and \<^verbatim>\<open>clear_targets_cache\<close> are the only writers, and anything else may happen to the
  rest of the state in between.\<close>

inductive cache_reachable :: "world \<Rightarrow> bool" where
  cache_empty: "targets_cache w = [] \<Longrightarrow> cache_reachable w"
| cache_update:
    "cache_reachable w \<Longrightarrow> cache_reachable (snd (update_target_cache user_id idx tgt w))"
| cache_clear: "cache_reachable w \<Longrightarrow> cache_reachable (clear_targets_cache w)"
| cache_kept: "cache_reachable w \<Longrightarrow> targets_cache w' = targets_cache w \<Longrightarrow> cache_reachable w'"

definition ceiling_invariant :: "(nat \<times> cache_entry) list \<Rightarrow> bool" where
  "ceiling_invariant cache =
     list_all (\<lambda>(i, cache_entry).
                 case gift_data cache_entry of
                   None \<Rightarrow> True
                 | Some g \<Rightarrow> price g \<le> max_price (target_info cache_entry))
              cache"

section \<open>The purchase worker (main.py)\<close>

definition startswith :: "string \<Rightarrow> string \<Rightarrow> bool" where
  "startswith s p = (take (length p) s = p)"

definition validate_gift_purchase ::
  "target_gift \<Rightarrow> int option \<Rightarrow> string option \<Rightarrow> int \<Rightarrow> bool" where
  "validate_gift_purchase g target_user_id target_chat_id max_price_limit =
     (if link g = [] \<or> price g = 0 \<or> name g = [] then False
      else if price g \<le> 0 then False
      else if price g > max_price_limit then False
      else if \<not> truthy_int target_user_id \<and> \<not> truthy_str target_chat_id then False
      else if truthy_int target_user_id \<and> truthy_str target_chat_id then False
      else if \<not> startswith (link g) ''https://t.me/nft/'' then False
      else True)"

definition send_message :: "notice \<Rightarrow> world \<Rightarrow> world" where
  "send_message n w = w\<lparr>sent_messages := sent_messages w @ [n]\<rparr>"

definition send_main_menu :: "world \<Rightarrow> world" where
  "send_main_menu w = send_message MainMenu w"

text \<open>
  The loop \<^verbatim>\<open>for gift_index, target_gift in enumerate(available_target_gifts, 1)\<close>; the
  result is \<^verbatim>\<open>purchased_any\<close>.
\<close>

fun try_candidates ::
  "int \<Rightarrow> int option \<Rightarrow> string option \<Rightarrow> target_gift list \<Rightarrow> world \<Rightarrow> bool \<times> world" where
  "try_candidates user_id target_user_id target_chat_id [] w = (False, w)"
| "try_candidates user_id target_user_id target_chat_id (target_gift # rest) w =
     (if link target_gift = [] then
        try_candidates user_id target_user_id target_chat_id rest w
      else if price target_gift > target_max_price target_gift then
        try_candidates user_id target_user_id target_chat_id rest w
      else if \<not> validate_gift_purchase target_gift target_user_id target_chat_id
                 (target_max_price target_gift) then
        try_candidates user_id target_user_id target_chat_id rest w
      else
        case buy_resold_gift_userbot user_id (link target_gift) target_user_id target_chat_id
               (price target_gift) 3 w of
          (True, w1) \<Rightarrow>
            (True,
             snd (refresh_balance (Some user_id)
                    (send_main_menu
                       (send_message (GiftSent (name target_gift) (price target_gift)) w1))))
        | (False, w1) \<Rightarrow> try_candidates user_id target_user_id target_chat_id rest w1)"

text \<open>One pass of the worker's \<^verbatim>\<open>while True\<close>: it ends with \<^verbatim>\<open>break\<close>, or goes on to
  the next cycle after a sleep.\<close>

datatype cycle_end = Break | NextCycle

definition hard_stop :: "config \<Rightarrow> notice \<Rightarrow> world \<Rightarrow> world" where
  "hard_stop config n w =
     send_main_menu (send_message n (save_config (config\<lparr>ACTIVE := False\<rparr>) w))"

definition purchase_cycle :: "int \<Rightarrow> world \<Rightarrow> cycle_end \<times> world" where
  "purchase_cycle user_id w =
     (let config = get_valid_config w
      in if \<not> ACTIVE config then (Break, w)
         else if \<not> is_userbot_active user_id w then
           (Break, hard_stop config SenderInactive w)
         else if enabled_targets config = [] then (NextCycle, w)
         else if \<not> truthy_int (TARGET_USER_ID config) \<and> \<not> truthy_str (TARGET_CHAT_ID config) then
           (Break, hard_stop config RecipientNotSet w)
         else
           let available_target_gifts = get_all_available_target_gifts w
           in if available_target_gifts = [] then (NextCycle, w)
              else
                case try_candidates user_id (TARGET_USER_ID config) (TARGET_CHAT_ID config)
                       available_target_gifts w of
                  (True, w1) \<Rightarrow> (NextCycle, w1)
                | (False, w1) \<Rightarrow>
                    (case refresh_balance (Some user_id) w1 of
                       (current_balance, w2) \<Rightarrow>
                         let min_price = min_list (map price available_target_gifts)
                         in if current_balance < min_price then
                              (Break, hard_stop config (NotEnoughStars current_balance min_price) w2)
                            else (NextCycle, w2)))"

text \<open>
  The worker: a first \<^verbatim>\<open>refresh_balance\<close>, then cycles until one ends with \<^verbatim>\<open>break\<close>.
  The loop may run forever, so it is run for a number of cycles; the result says whether
  the loop was left. Nothing else changes the state between the cycles of this run.
\<close>

fun purchase_cycles :: "nat \<Rightarrow> int \<Rightarrow> world \<Rightarrow> bool \<times> world" where
  "purchase_cycles 0 user_id w = (False, w)"
| "purchase_cycles (Suc n) user_id w =
     (case purchase_cycle user_id w of
        (Break, w1) \<Rightarrow> (True, w1)
      | (NextCycle, w1) \<Rightarrow> purchase_cycles n user_id w1)"

definition gift_purchase_worker :: "nat \<Rightarrow> int \<Rightarrow> world \<Rightarrow> bool \<times> world" where
  "gift_purchase_worker cycles user_id w =
     purchase_cycles cycles user_id (snd (refresh_balance (Some user_id) w))"

section \<open>The worker supervisor (main.py)\<close>

text \<open>A task is the name it was created with and a serial number (each
  \<^verbatim>\<open>asyncio.create_task\<close> makes a new object).\<close>

datatype task = Task string nat

record supervisor =
  running_tasks :: "task set"
  tasks_created :: nat

definition are_workers_running :: "supervisor \<Rightarrow> bool" where
  "are_workers_running s = (card (running_tasks s) > 0)"

definition stop_workers :: "supervisor \<Rightarrow> supervisor" where
  "stop_workers s = (if running_tasks s = {} then s else s\<lparr>running_tasks := {}\<rparr>)"

definition create_task :: "string \<Rightarrow> supervisor \<Rightarrow> task \<times> supervisor" where
  "create_task task_name s =
     (Task task_name (tasks_created s), s\<lparr>tasks_created := Suc (tasks_created s)\<rparr>)"

definition add_task :: "task \<Rightarrow> supervisor \<Rightarrow> supervisor" where
  "add_task t s = s\<lparr>running_tasks := insert t (running_tasks s)\<rparr>"

definition start_workers :: "int \<Rightarrow> world \<Rightarrow> supervisor \<Rightarrow> bool \<times> supervisor" where
  "start_workers user_id w s =
     (let config = get_valid_config w
      in if \<not> ACTIVE config then (False, s)
         else if \<not> is_userbot_active user_id w then (False, s)
         else if \<not> truthy_int (TARGET_USER_ID config) \<and> \<not> truthy_str (TARGET_CHAT_ID config) then
           (False, s)
         else if enabled_targets config = [] then (False, s)
         else
           let s1 = (if running_tasks s \<noteq> {} then stop_workers s else s);
               (purchase_task, s2) = create_task ''gift_purchase_worker'' s1;
               s3 = add_task purchase_task s2;
               (targets_task, s4) = create_task ''userbot_targets_updater'' s3;
               s5 = add_task targets_task s4
           in (True, s5))"

text \<open>The completion callback both tasks are given: \<^verbatim>\<open>_running_tasks.discard(task)\<close>.\<close>

definition task_done_callback :: "task \<Rightarrow> supervisor \<Rightarrow> supervisor" where
  "task_done_callback t s = s\<lparr>running_tasks := running_tasks s - {t}\<rparr>"

text \<open>The states of the supervisor: no task at first; then starts, stops, and tasks that
  finish (cancelled, failed or returned) in any order.\<close>

inductive supervisor_reachable :: "supervisor \<Rightarrow> bool" where
  sup_init: "supervisor_reachable \<lparr>running_tasks = {}, tasks_created = 0\<rparr>"
| sup_start: "supervisor_reachable s \<Longrightarrow> supervisor_reachable (snd (start_workers user_id w s))"
| sup_stop: "supervisor_reachable s \<Longrightarrow> supervisor_reachable (stop_workers s)"
| sup_done: "supervisor_reachable s \<Longrightarrow> supervisor_reachable (task_done_callback t s)"

section \<open>Example states\<close>

text \<open>A configured and running system: one target with a ceiling of 1000 stars, a user
  as recipient, a cached balance of 1000 stars, a live sender session of operator 777, and
  a platform that answers every balance query with 1000 stars and every purchase call by
  returning \<^verbatim>\<open>None\<close>.\<close>

definition example_userbot :: userbot_config where
  "example_userbot =
     \<lparr>API_ID = Some 12345, API_HASH = Some ''0123abcd'', PHONE = Some ''+10000000000'',
      USER_ID = Some 777, FIRST_NAME = Some ''Sender'', BALANCE = 1000, ENABLED = True\<rparr>"

definition example_target :: target where
  "example_target =
     \<lparr>GIFT_ID = ''5170145012310081615'', GIFT_NAME = ''Heart'', MAX_PRICE = 1000,
      TARGET_ENABLED = True\<rparr>"

definition example_config :: config where
  "example_config =
     \<lparr>ACTIVE = True, TARGET_USER_ID = Some 42, TARGET_CHAT_ID = None,
      TARGETS = [example_target], USERBOT = example_userbot\<rparr>"

definition example_world :: world where
  "example_world =
     \<lparr>config_json = example_config,
      userbot_client = True, userbot_started = True, current_user_id = Some 777,
      is_connected = True,
      targets_cache = [],
      get_me_reply = (\<lambda>_. True), get_me_calls = 0,
      get_stars_balance_reply = (\<lambda>_. StarsInt 1000), get_stars_balance_calls = 0,
      send_resold_gift_reply = (\<lambda>_. Sent False), send_resold_gift_log = [],
      search_gifts_for_resale_reply = (\<lambda>_ _. []), search_gifts_for_resale_calls = 0,
      sent_messages = []\<rparr>"

definition example_entry :: "int \<Rightarrow> string \<Rightarrow> cache_entry" where
  "example_entry p l =
     \<lparr>gift_data = Some \<lparr>price = p, name = ''Heart'', link = l, resale_ton_only = False,
                         available_for_stars = True\<rparr>,
      target_info = \<lparr>gift_id = 5170145012310081615, gift_name = ''Heart'', max_price = 1000\<rparr>\<rparr>"


text \<open>The same system with the sender's phone number missing from the configuration.\<close>

definition unconfigured_world :: world where
  "unconfigured_world =
     example_world\<lparr>config_json := example_config\<lparr>USERBOT := example_userbot\<lparr>PHONE := None\<rparr>\<rparr>\<rparr>"

text \<open>The same system with an empty target list.\<close>

definition no_targets_world :: world where
  "no_targets_world = example_world\<lparr>config_json := example_config\<lparr>TARGETS := []\<rparr>\<rparr>"

text \<open>Two cached listings of 100 and 200 stars. The platform rejects the first purchase
  call (the listing is gone) and accepts the second: the balance is 1000 stars at the first
  two queries and 800 afterwards.\<close>

definition two_candidates_world :: world where
  "two_candidates_world =
     example_world
       \<lparr>targets_cache := [(0, example_entry 100 ''https://t.me/nft/Heart-1''),
                          (1, example_entry 200 ''https://t.me/nft/Heart-2'')],
        send_resold_gift_reply := (\<lambda>i. if i = 0 then BadRequest ''GIFT_NOT_FOUND'' else Sent False),
        get_stars_balance_reply := (\<lambda>i. if i < 2 then StarsInt 1000 else StarsInt 800)\<rparr>"

text \<open>A cached balance and a real balance of 100 stars, and one cached listing of 150.\<close>

definition low_balance_world :: world where
  "low_balance_world =
     example_world
       \<lparr>config_json := example_config\<lparr>USERBOT := example_userbot\<lparr>BALANCE := 100\<rparr>\<rparr>,
        targets_cache := [(0, example_entry 150 ''https://t.me/nft/Heart-7'')],
        get_stars_balance_reply := (\<lambda>_. StarsInt 100)\<rparr>"

text \<open>Search results: a listing sold for TON only, then one for 2000 stars (or one for
  900 stars), then a cheaper one that a price-ordered search would not return there.\<close>

definition ton_listing :: resale_gift where
  "ton_listing =
     \<lparr>last_resale_star_count = Some 50, raw_name = ''Heart #1'',
      raw_link = ''https://t.me/nft/Heart-1'', raw_resale_ton_only = True\<rparr>"

definition star_listing :: "int \<Rightarrow> resale_gift" where
  "star_listing p =
     \<lparr>last_resale_star_count = Some p, raw_name = ''Heart #2'',
      raw_link = ''https://t.me/nft/Heart-2'', raw_resale_ton_only = False\<rparr>"

definition search_world :: "int \<Rightarrow> world" where
  "search_world p =
     example_world
       \<lparr>search_gifts_for_resale_reply :=
          (\<lambda>_ _. [Yield ton_listing, Yield (star_listing p), Yield (star_listing 1)])\<rparr>"

definition no_workers :: supervisor where
  "no_workers = \<lparr>running_tasks = {}, tasks_created = 0\<rparr>"

text \<open>The operator messages that report a purchase.\<close>

fun is_gift_sent :: "notice \<Rightarrow> bool" where
  "is_gift_sent (GiftSent _ _) = True"
| "is_gift_sent _ = False"

text \<open>The same system with no \<^verbatim>\<open>USER_ID\<close> in the configuration.\<close>

definition no_user_id_world :: world where
  "no_user_id_world =
     example_world\<lparr>config_json := example_config\<lparr>USERBOT := example_userbot\<lparr>USER_ID := None\<rparr>\<rparr>\<rparr>"

text \<open>The same system with a platform that reports a balance of \<open>2 ^ 53 + 1\<close> stars.\<close>

definition huge_balance_world :: world where
  "huge_balance_world =
     example_world\<lparr>get_stars_balance_reply := (\<lambda>_. StarsInt 9007199254740993)\<rparr>"

text \<open>A cached balance of 500 stars, a real balance of 100 stars and one cached listing of
  150; the platform rejects the purchase call.\<close>

definition stale_balance_world :: world where
  "stale_balance_world =
     example_world
       \<lparr>config_json := example_config\<lparr>USERBOT := example_userbot\<lparr>BALANCE := 500\<rparr>\<rparr>,
        targets_cache := [(0, example_entry 150 ''https://t.me/nft/Heart-7'')],
        get_stars_balance_reply := (\<lambda>_. StarsInt 100),
        send_resold_gift_reply := (\<lambda>_. BadRequest ''BALANCE_TOO_LOW'')\<rparr>"

text \<open>The star count of a logged purchase call.\<close>

definition call_price :: "string \<times> recipient \<times> int \<Rightarrow> int" where
  "call_price c = snd (snd c)"

text \<open>A candidate as the cache scan returns it for the example entries.\<close>

definition example_candidate :: "nat \<Rightarrow> int \<Rightarrow> string \<Rightarrow> target_gift" where
  "example_candidate i p l =
     \<lparr>price = p, name = ''Heart'', link = l, resale_ton_only = False,
      available_for_stars = True, target_index = i, target_gift_name = ''Heart'',
      target_max_price = 1000\<rparr>"

section \<open>Auxiliary facts\<close>

lemma is_userbot_active_iff:
  "is_userbot_active uid w \<longleftrightarrow>
     userbot_client w \<and> userbot_started w \<and> current_user_id w = Some uid \<and> is_connected w"
  by (auto simp: is_userbot_active_def)

lemma get_valid_config_fields [simp]:
  "ACTIVE (get_valid_config w) = ACTIVE (config_json w)"
  "TARGET_USER_ID (get_valid_config w) = TARGET_USER_ID (config_json w)"
  "TARGET_CHAT_ID (get_valid_config w) = TARGET_CHAT_ID (config_json w)"
  "USERBOT (get_valid_config w) = USERBOT (config_json w)"
  by (simp_all add: get_valid_config_def load_config_def simple_validate_config_def)

lemma bit_length_le: "bit_length a \<le> k \<longleftrightarrow> a < 2 ^ k"
proof (induction a arbitrary: k rule: bit_length.induct)
  case (1 n)
  show ?case
  proof (cases "n \<le> 0")
    case True
    have "(0::int) < 2 ^ k" by simp
    with True have "n < 2 ^ k" by linarith
    with True show ?thesis by (simp add: bit_length.simps [of n])
  next
    case False
    show ?thesis
    proof (cases k)
      case 0
      with False show ?thesis by (simp add: bit_length.simps [of n])
    next
      case (Suc j)
      have "bit_length n \<le> Suc j \<longleftrightarrow> bit_length (n div 2) \<le> j"
        using False by (simp add: bit_length.simps [of n])
      also have "\<dots> \<longleftrightarrow> n div 2 < 2 ^ j" using 1 [OF False] by simp
      also have "\<dots> \<longleftrightarrow> n < 2 ^ Suc j" by (simp add: div_less_iff_less_mult) arith
      finally show ?thesis using Suc by simp
    qed
  qed
qed

lemma py_float_of_int_small:
  assumes "\<bar>n\<bar> < 2 ^ 53"
  shows "py_float_of_int n = Some (Finite n 0)"
proof -
  have "bit_length \<bar>n\<bar> \<le> 53" using assms by (simp only: bit_length_le)
  then show ?thesis by (simp add: py_float_of_int_def Let_def)
qed

lemma get_sender_stars_balance_ok:
  assumes "is_userbot_active uid w" "get_me_reply w (get_me_calls w)"
  shows "get_sender_stars_balance uid w =
     (let w2 = w\<lparr>get_me_calls := Suc (get_me_calls w),
                  get_stars_balance_calls := Suc (get_stars_balance_calls w)\<rparr>
      in case get_stars_balance_reply w (get_stars_balance_calls w) of
           StarsInt n \<Rightarrow>
             (case py_float_of_int n of
                Some f \<Rightarrow> (Some f, w2)
              | None \<Rightarrow> (None, w2\<lparr>get_me_calls := Suc (get_me_calls w2)\<rparr>))
         | StarsFloat f \<Rightarrow> (Some f, w2)
         | StarsRPCError \<Rightarrow> (None, w2)
         | StarsError \<Rightarrow> (None, w2\<lparr>get_me_calls := Suc (get_me_calls w2)\<rparr>))"
  using assms
  by (simp add: get_sender_stars_balance_def get_userbot_client_def is_userbot_active_iff Let_def)

lemma stars_balance_int_ok:
  assumes "is_userbot_active uid w" "get_me_reply w (get_me_calls w)"
    and "(\<exists>n f. get_stars_balance_reply w (get_stars_balance_calls w) = StarsInt n \<and>
                 py_float_of_int n = Some f \<and> py_int_of_float f = Some b) \<or>
         (\<exists>f. get_stars_balance_reply w (get_stars_balance_calls w) = StarsFloat f \<and>
                 py_int_of_float f = Some b)"
  shows "stars_balance_int uid w =
     (Some b, w\<lparr>get_me_calls := Suc (get_me_calls w),
               get_stars_balance_calls := Suc (get_stars_balance_calls w)\<rparr>)"
  using assms(3)
  by (auto simp: stars_balance_int_def get_sender_stars_balance_ok [OF assms(1,2)] Let_def)

lemma get_userbot_client_frame [simp]:
  "send_resold_gift_log (snd (get_userbot_client uid w)) = send_resold_gift_log w"
  "sent_messages (snd (get_userbot_client uid w)) = sent_messages w"
  by (simp_all add: get_userbot_client_def reset_userbot_state_def Let_def)

lemma get_sender_stars_balance_frame [simp]:
  "send_resold_gift_log (snd (get_sender_stars_balance uid w)) = send_resold_gift_log w"
  "sent_messages (snd (get_sender_stars_balance uid w)) = sent_messages w"
proof -
  obtain c w1 where g: "get_userbot_client uid w = (c, w1)" by (cases "get_userbot_client uid w")
  have f: "send_resold_gift_log w1 = send_resold_gift_log w" "sent_messages w1 = sent_messages w"
    using get_userbot_client_frame [of uid w] g by simp_all
  show "send_resold_gift_log (snd (get_sender_stars_balance uid w)) = send_resold_gift_log w"
    using g f
    by (simp add: get_sender_stars_balance_def Let_def
        split: balance_reply.splits bool.splits option.splits)
  show "sent_messages (snd (get_sender_stars_balance uid w)) = sent_messages w"
    using g f
    by (simp add: get_sender_stars_balance_def Let_def
        split: balance_reply.splits bool.splits option.splits)
qed

lemma stars_balance_int_frame [simp]:
  "send_resold_gift_log (snd (stars_balance_int uid w)) = send_resold_gift_log w"
  "sent_messages (snd (stars_balance_int uid w)) = sent_messages w"
proof -
  obtain r w1 where g: "get_sender_stars_balance uid w = (r, w1)"
    by (cases "get_sender_stars_balance uid w")
  have f: "send_resold_gift_log w1 = send_resold_gift_log w" "sent_messages w1 = sent_messages w"
    using get_sender_stars_balance_frame [of uid w] g by simp_all
  show "send_resold_gift_log (snd (stars_balance_int uid w)) = send_resold_gift_log w"
    using g f by (simp add: stars_balance_int_def split: option.splits)
  show "sent_messages (snd (stars_balance_int uid w)) = sent_messages w"
    using g f by (simp add: stars_balance_int_def split: option.splits)
qed

lemma change_balance_userbot_frame [simp]:
  "send_resold_gift_log (snd (change_balance_userbot d w)) = send_resold_gift_log w"
  "sent_messages (snd (change_balance_userbot d w)) = sent_messages w"
  by (simp_all add: change_balance_userbot_def save_config_def Let_def)

lemma save_config_frame [simp]:
  "send_resold_gift_log (save_config c w) = send_resold_gift_log w"
  "sent_messages (save_config c w) = sent_messages w"
  by (simp_all add: save_config_def)

lemma refresh_balance_frame [simp]:
  "send_resold_gift_log (snd (refresh_balance u w)) = send_resold_gift_log w"
  "sent_messages (snd (refresh_balance u w)) = sent_messages w"
proof -
  have a: "send_resold_gift_log (snd (refresh_balance u w)) = send_resold_gift_log w \<and>
           sent_messages (snd (refresh_balance u w)) = sent_messages w"
  proof (cases "effective_user_id u (load_config w)")
    case None
    then show ?thesis by (simp add: refresh_balance_def Let_def)
  next
    case (Some uid)
    obtain r w1 where g: "stars_balance_int uid w = (r, w1)"
      by (cases "stars_balance_int uid w")
    have f: "send_resold_gift_log w1 = send_resold_gift_log w" "sent_messages w1 = sent_messages w"
      using stars_balance_int_frame [of uid w] g by simp_all
    show ?thesis
      using Some g f by (simp add: refresh_balance_def Let_def split: option.splits)
  qed
  show "send_resold_gift_log (snd (refresh_balance u w)) = send_resold_gift_log w"
    and "sent_messages (snd (refresh_balance u w)) = sent_messages w"
    using a by simp_all
qed

lemma refresh_balance_persists:
  "BALANCE (USERBOT (config_json (snd (refresh_balance u w)))) = fst (refresh_balance u w)"
proof (cases "effective_user_id u (load_config w)")
  case None
  then show ?thesis by (simp add: refresh_balance_def Let_def save_config_def set_balance_def)
next
  case (Some uid)
  obtain r w1 where g: "stars_balance_int uid w = (r, w1)"
    by (cases "stars_balance_int uid w")
  show ?thesis
    using Some g
    by (simp add: refresh_balance_def Let_def save_config_def set_balance_def split: option.splits)
qed

text \<open>The purchase calls of one run of the attempts loop are all for the same listing.\<close>

lemma purchase_attempts_calls:
  "sent_messages (snd (purchase_attempts uid gl rcp e cb bb n w)) = sent_messages w \<and>
   (\<exists>k \<le> n. (fst (purchase_attempts uid gl rcp e cb bb n w) \<longrightarrow> 0 < k) \<and>
      send_resold_gift_log (snd (purchase_attempts uid gl rcp e cb bb n w))
        = send_resold_gift_log w @ replicate k (gl, rcp, e))"
proof (induction n arbitrary: w)
  case 0
  show ?case by simp
next
  case (Suc n)
  let ?w1 = "w\<lparr>send_resold_gift_log := send_resold_gift_log w @ [(gl, rcp, e)]\<rparr>"
  define Q where "Q res \<longleftrightarrow>
     sent_messages (snd res) = sent_messages w \<and>
     (\<exists>k \<le> Suc n. (fst res \<longrightarrow> 0 < k) \<and>
        send_resold_gift_log (snd res) = send_resold_gift_log w @ replicate k (gl, rcp, e))"
    for res :: "bool \<times> world"
  obtain r w2 where g: "stars_balance_int uid ?w1 = (r, w2)"
    by (cases "stars_balance_int uid ?w1")
  have f: "send_resold_gift_log w2 = send_resold_gift_log w @ [(gl, rcp, e)]"
    "sent_messages w2 = sent_messages w"
    using stars_balance_int_frame [of uid ?w1] g by simp_all
  have once: "Q (b, v)"
    if "send_resold_gift_log v = send_resold_gift_log w @ [(gl, rcp, e)]"
      and "sent_messages v = sent_messages w" for b v
    unfolding Q_def using that by (intro conjI exI [of _ 1]) simp_all
  have again: "Q (purchase_attempts uid gl rcp e cb bb n v)"
    if v: "send_resold_gift_log v = send_resold_gift_log w @ [(gl, rcp, e)]"
      "sent_messages v = sent_messages w" for v
  proof -
    obtain k where k: "k \<le> n"
      "fst (purchase_attempts uid gl rcp e cb bb n v) \<longrightarrow> 0 < k"
      "send_resold_gift_log (snd (purchase_attempts uid gl rcp e cb bb n v))
        = send_resold_gift_log v @ replicate k (gl, rcp, e)"
      using Suc.IH [of v] by blast
    have m: "sent_messages (snd (purchase_attempts uid gl rcp e cb bb n v)) = sent_messages w"
      using Suc.IH [of v] v by simp
    have "send_resold_gift_log (snd (purchase_attempts uid gl rcp e cb bb n v))
        = send_resold_gift_log w @ replicate (Suc k) (gl, rcp, e)"
      using k(3) v by simp
    with k(1) m show ?thesis unfolding Q_def by (intro conjI exI [of _ "Suc k"]) simp_all
  qed
  have q1: "Q (b, ?w1)" for b by (rule once) simp_all
  have q2: "Q (purchase_attempts uid gl rcp e cb bb n ?w1)" by (rule again) simp_all
  have q3: "Q (purchase_attempts uid gl rcp e cb bb n w2)" by (rule again) (simp_all add: f)
  have q4: "Q (b, snd (change_balance_userbot d w2))" for b d by (rule once) (simp_all add: f)
  have "Q (purchase_attempts uid gl rcp e cb bb (Suc n) w)"
    using g q1 q2 q3 q4
    by (simp add: Let_def split: send_reply.splits option.splits verdict.splits)
  then show ?case unfolding Q_def .
qed

lemma buy_resold_gift_userbot_calls:
  "sent_messages (snd (buy_resold_gift_userbot uid gl tu tc e n w)) = sent_messages w \<and>
   (\<exists>k \<le> n. \<exists>rcp. (fst (buy_resold_gift_userbot uid gl tu tc e n w) \<longrightarrow> 0 < k) \<and>
      send_resold_gift_log (snd (buy_resold_gift_userbot uid gl tu tc e n w))
        = send_resold_gift_log w @ replicate k (gl, rcp, e))"
proof -
  define Q where "Q res \<longleftrightarrow>
     sent_messages (snd res) = sent_messages w \<and>
     (\<exists>k \<le> n. \<exists>rcp. (fst res \<longrightarrow> 0 < k) \<and>
        send_resold_gift_log (snd res) = send_resold_gift_log w @ replicate k (gl, rcp, e))"
    for res :: "bool \<times> world"
  obtain c w1 where g1: "get_userbot_client uid w = (c, w1)" by (cases "get_userbot_client uid w")
  have f1: "send_resold_gift_log w1 = send_resold_gift_log w" "sent_messages w1 = sent_messages w"
    using get_userbot_client_frame [of uid w] g1 by simp_all
  obtain r w2 where g2: "stars_balance_int uid w1 = (r, w2)"
    by (cases "stars_balance_int uid w1")
  have f2: "send_resold_gift_log w2 = send_resold_gift_log w" "sent_messages w2 = sent_messages w"
    using stars_balance_int_frame [of uid w1] g2 f1 by simp_all
  have none: "Q (False, v)"
    if "send_resold_gift_log v = send_resold_gift_log w" "sent_messages v = sent_messages w" for v
    unfolding Q_def using that by (intro conjI exI [of _ 0]) simp_all
  have q0: "Q (False, save_config c w)" for c by (rule none) simp_all
  have q1: "Q (False, w1)" by (rule none) (simp_all add: f1)
  have q2: "Q (False, w2)" by (rule none) (simp_all add: f2)
  have q3: "Q (purchase_attempts uid gl rcp e cb bb n w2)" for rcp cb bb
    unfolding Q_def using purchase_attempts_calls [of uid gl rcp e cb bb n w2] f2 by auto
  have "Q (buy_resold_gift_userbot uid gl tu tc e n w)"
    using g1 g2 q0 q1 q2 q3
    by (simp add: buy_resold_gift_userbot_def Let_def split: option.splits bool.splits)
  then show ?thesis unfolding Q_def .
qed

lemma purchase_attempts_verdict:
  assumes "send_resold_gift_reply w (length (send_resold_gift_log w)) = Sent m"
    and "stars_balance_int uid
           (w\<lparr>send_resold_gift_log := send_resold_gift_log w @ [(gl, rcp, e)]\<rparr>) = (Some a, w2)"
  shows "purchase_attempts uid gl rcp e cb bb (Suc n) w =
     (if classify_balance_diff e (bb - a) = PurchaseFailed
      then purchase_attempts uid gl rcp e cb bb n w2
      else (True, snd (change_balance_userbot (a - cb) w2)))"
  using assms by (simp add: Let_def split: verdict.splits)

lemma try_candidates_effects:
  "(\<exists>calls. send_resold_gift_log (snd (try_candidates uid tu tc gs w))
              = send_resold_gift_log w @ calls \<and>
            length calls \<le> 3 * length gs \<and>
            set (map call_price calls) \<subseteq> set (map price gs) \<and>
            (sorted (map price gs) \<longrightarrow> sorted (map call_price calls))) \<and>
   (if fst (try_candidates uid tu tc gs w)
    then \<exists>g \<in> set gs. sent_messages (snd (try_candidates uid tu tc gs w))
           = sent_messages w @ [GiftSent (name g) (price g), MainMenu]
    else sent_messages (snd (try_candidates uid tu tc gs w)) = sent_messages w)"
proof (induction gs arbitrary: w)
  case Nil
  show ?case by simp
next
  case (Cons g gs)
  define Q where "Q v res \<longleftrightarrow>
     (\<exists>calls. send_resold_gift_log (snd res) = send_resold_gift_log v @ calls \<and>
            length calls \<le> 3 * length gs \<and>
            set (map call_price calls) \<subseteq> set (map price gs) \<and>
            (sorted (map price gs) \<longrightarrow> sorted (map call_price calls))) \<and>
     (if fst res
      then \<exists>g \<in> set gs. sent_messages (snd res)
             = sent_messages v @ [GiftSent (name g) (price g), MainMenu]
      else sent_messages (snd res) = sent_messages v)"
    for v :: world and res :: "bool \<times> world"
  define P where "P res \<longleftrightarrow>
     (\<exists>calls. send_resold_gift_log (snd res) = send_resold_gift_log w @ calls \<and>
            length calls \<le> 3 * length (g # gs) \<and>
            set (map call_price calls) \<subseteq> set (map price (g # gs)) \<and>
            (sorted (map price (g # gs)) \<longrightarrow> sorted (map call_price calls))) \<and>
     (if fst res
      then \<exists>g' \<in> set (g # gs). sent_messages (snd res)
             = sent_messages w @ [GiftSent (name g') (price g'), MainMenu]
      else sent_messages (snd res) = sent_messages w)"
    for res :: "bool \<times> world"
  have ih: "Q v (try_candidates uid tu tc gs v)" for v
    unfolding Q_def using Cons.IH [of v] .
  obtain ok w1 where b: "buy_resold_gift_userbot uid (link g) tu tc (price g) 3 w = (ok, w1)"
    by (cases "buy_resold_gift_userbot uid (link g) tu tc (price g) 3 w")
  obtain k rcp where k: "k \<le> 3" "ok \<longrightarrow> 0 < k"
    "send_resold_gift_log w1 = send_resold_gift_log w @ replicate k (link g, rcp, price g)"
    using buy_resold_gift_userbot_calls [of uid "link g" tu tc "price g" 3 w] b by auto
  have m1: "sent_messages w1 = sent_messages w"
    using buy_resold_gift_userbot_calls [of uid "link g" tu tc "price g" 3 w] b by simp
  have skip: "P (try_candidates uid tu tc gs w)"
  proof -
    obtain calls where c: "send_resold_gift_log (snd (try_candidates uid tu tc gs w))
          = send_resold_gift_log w @ calls" "length calls \<le> 3 * length gs"
        "set (map call_price calls) \<subseteq> set (map price gs)"
        "sorted (map price gs) \<longrightarrow> sorted (map call_price calls)"
      using ih [of w] unfolding Q_def by blast
    have "\<exists>calls. send_resold_gift_log (snd (try_candidates uid tu tc gs w))
            = send_resold_gift_log w @ calls \<and>
            length calls \<le> 3 * length (g # gs) \<and>
            set (map call_price calls) \<subseteq> set (map price (g # gs)) \<and>
            (sorted (map price (g # gs)) \<longrightarrow> sorted (map call_price calls))"
      using c by (intro exI [of _ calls]) auto
    then show ?thesis using ih [of w] unfolding P_def Q_def by auto
  qed
  have bought: "P (True, snd (refresh_balance (Some uid)
                    (send_main_menu (send_message (GiftSent (name g) (price g)) w1))))"
    (is "P (True, ?v)")
  proof -
    have l: "send_resold_gift_log ?v = send_resold_gift_log w @ replicate k (link g, rcp, price g)"
      using k(3) by (simp add: send_main_menu_def send_message_def)
    have s: "sent_messages ?v = sent_messages w @ [GiftSent (name g) (price g), MainMenu]"
      using m1 by (simp add: send_main_menu_def send_message_def)
    have "\<exists>calls. send_resold_gift_log ?v = send_resold_gift_log w @ calls \<and>
            length calls \<le> 3 * length (g # gs) \<and>
            set (map call_price calls) \<subseteq> set (map price (g # gs)) \<and>
            (sorted (map price (g # gs)) \<longrightarrow> sorted (map call_price calls))"
      using l k(1)
      by (intro exI [of _ "replicate k (link g, rcp, price g)"]) (auto simp: call_price_def)
    then show ?thesis using s unfolding P_def by simp
  qed
  have failed: "P (try_candidates uid tu tc gs w1)"
  proof -
    obtain calls where c: "send_resold_gift_log (snd (try_candidates uid tu tc gs w1))
          = send_resold_gift_log w1 @ calls" "length calls \<le> 3 * length gs"
        "set (map call_price calls) \<subseteq> set (map price gs)"
        "sorted (map price gs) \<longrightarrow> sorted (map call_price calls)"
      using ih [of w1] unfolding Q_def by blast
    let ?all = "replicate k (link g, rcp, price g) @ calls"
    have a1: "send_resold_gift_log (snd (try_candidates uid tu tc gs w1))
          = send_resold_gift_log w @ ?all" using c(1) k(3) by simp
    have a2: "length ?all \<le> 3 * length (g # gs)" using c(2) k(1) by simp
    have a3: "set (map call_price ?all) \<subseteq> set (map price (g # gs))"
      using c(3) by (auto simp: call_price_def)
    have a4: "sorted (map call_price ?all)" if srt: "sorted (map price (g # gs))"
    proof -
      have "\<forall>p \<in> set (map price gs). price g \<le> p" using srt by auto
      then have "\<forall>p \<in> set (map call_price calls). price g \<le> p" using c(3) by blast
      moreover have "sorted (map call_price calls)" using srt c(4) by simp
      ultimately show ?thesis by (auto simp: sorted_append call_price_def)
    qed
    have "\<exists>calls. send_resold_gift_log (snd (try_candidates uid tu tc gs w1))
            = send_resold_gift_log w @ calls \<and>
            length calls \<le> 3 * length (g # gs) \<and>
            set (map call_price calls) \<subseteq> set (map price (g # gs)) \<and>
            (sorted (map price (g # gs)) \<longrightarrow> sorted (map call_price calls))"
      using a1 a2 a3 a4 by (intro exI [of _ ?all]) blast
    then show ?thesis using ih [of w1] m1 unfolding P_def Q_def by auto
  qed
  have "P (try_candidates uid tu tc (g # gs) w)"
    using b skip bought failed by (cases ok) auto
  then show ?case unfolding P_def .
qed

lemma try_candidates_stops:
  "fst (try_candidates uid tu tc gs w) \<Longrightarrow>
   try_candidates uid tu tc (gs @ later) w = try_candidates uid tu tc gs w"
proof (induction gs arbitrary: w)
  case Nil
  then show ?case by simp
next
  case (Cons g gs)
  obtain ok w1 where b: "buy_resold_gift_userbot uid (link g) tu tc (price g) 3 w = (ok, w1)"
    by (cases "buy_resold_gift_userbot uid (link g) tu tc (price g) 3 w")
  show ?case
  proof (cases "link g = [] \<or> price g > target_max_price g \<or>
                \<not> validate_gift_purchase g tu tc (target_max_price g)")
    case True
    then show ?thesis using Cons.prems Cons.IH [of w] by (auto split: if_splits)
  next
    case False
    then show ?thesis using Cons.prems b Cons.IH [of w1] by (cases ok) auto
  qed
qed

lemma scan_gifts_within_limit:
  "fst (scan_gifts (Some m) gen k) = Some g \<Longrightarrow> price g \<le> m"
  by (induction "Some m" gen k rule: scan_gifts.induct) (auto simp: Let_def split: if_splits)

lemma find_cheapest_within_limit:
  "fst (find_cheapest_gift_by_id uid gid (Some m) w) = Some g \<Longrightarrow> price g \<le> m"
  by (auto simp: find_cheapest_gift_by_id_def Let_def split: if_splits prod.splits bool.splits
      dest: scan_gifts_within_limit)

lemma get_userbot_client_cache [simp]:
  "targets_cache (snd (get_userbot_client uid w)) = targets_cache w"
  by (simp add: get_userbot_client_def reset_userbot_state_def Let_def)

lemma find_cheapest_cache [simp]:
  "targets_cache (snd (find_cheapest_gift_by_id uid gid lim w)) = targets_cache w"
proof -
  obtain c w1 where g: "get_userbot_client uid w = (c, w1)" by (cases "get_userbot_client uid w")
  have "targets_cache w1 = targets_cache w" using get_userbot_client_cache [of uid w] g by simp
  then show ?thesis using g
    by (simp add: find_cheapest_gift_by_id_def Let_def split: bool.splits)
qed

lemma ceiling_invariant_update:
  "ceiling_invariant c \<Longrightarrow>
   (case gift_data e of None \<Rightarrow> True | Some g \<Rightarrow> price g \<le> max_price (target_info e)) \<Longrightarrow>
   ceiling_invariant (AList.update i e c)"
  unfolding ceiling_invariant_def by (induction c) auto

lemma update_target_cache_ceiling:
  assumes "ceiling_invariant (targets_cache w)"
  shows "ceiling_invariant (targets_cache (snd (update_target_cache uid i t w)))"
proof (cases "GIFT_ID t = [] \<or> py_int (GIFT_ID t) = None")
  case True
  then show ?thesis using assms by (auto simp: update_target_cache_def)
next
  case False
  then obtain gid where p: "py_int (GIFT_ID t) = Some gid" by auto
  obtain found w1 where f: "find_cheapest_gift_by_id uid gid (Some (MAX_PRICE t)) w = (found, w1)"
    by (cases "find_cheapest_gift_by_id uid gid (Some (MAX_PRICE t)) w")
  have c1: "targets_cache w1 = targets_cache w"
    using find_cheapest_cache [of uid gid "Some (MAX_PRICE t)" w] f by simp
  have ok: "case found of None \<Rightarrow> True | Some g \<Rightarrow> price g \<le> MAX_PRICE t"
    using find_cheapest_within_limit [of uid gid "MAX_PRICE t" w] f by (auto split: option.splits)
  show ?thesis
  proof -
    have "ceiling_invariant
            (AList.update i
               \<lparr>gift_data = found,
                target_info = \<lparr>gift_id = gid, gift_name = GIFT_NAME t, max_price = MAX_PRICE t\<rparr>\<rparr>
               (targets_cache w))"
      using assms ok by (intro ceiling_invariant_update) (simp_all split: option.splits)
    then show ?thesis
      using False p f c1 by (simp add: update_target_cache_def)
  qed
qed

lemma scan_gifts_skips:
  assumes "\<forall>x \<in> set skipped. \<not> (available_for_stars (normalize_resale_gift x) \<and>
                                     price (normalize_resale_gift x) > 0)"
  shows "scan_gifts lim (map Yield skipped @ rest) k = scan_gifts lim rest (k + length skipped)"
  using assms by (induction skipped arbitrary: k) (auto simp: Let_def)

lemma start_workers_result:
  "start_workers uid w s =
     (if ACTIVE (config_json w) \<and> is_userbot_active uid w \<and>
         (truthy_int (TARGET_USER_ID (config_json w)) \<or> truthy_str (TARGET_CHAT_ID (config_json w))) \<and>
         enabled_targets (get_valid_config w) \<noteq> []
      then (True, \<lparr>running_tasks = {Task ''gift_purchase_worker'' (tasks_created s),
                                     Task ''userbot_targets_updater'' (Suc (tasks_created s))},
                   tasks_created = Suc (Suc (tasks_created s))\<rparr>)
      else (False, s))"
  by (cases s) (auto simp: start_workers_def Let_def stop_workers_def create_task_def add_task_def)

section \<open>Balance bookkeeping\<close>

text \<open>
  C10. For every delta and every cached balance, \<^verbatim>\<open>change_balance_userbot\<close> returns
  \<open>max 0 (current + delta)\<close> and stores it as the cached balance, which is therefore never
  negative afterwards.
\<close>

theorem change_balance_userbot_clamps:
  "fst (change_balance_userbot delta w) = max 0 (BALANCE (USERBOT (config_json w)) + delta) \<and>
   BALANCE (USERBOT (config_json (snd (change_balance_userbot delta w))))
     = max 0 (BALANCE (USERBOT (config_json w)) + delta) \<and>
   0 \<le> BALANCE (USERBOT (config_json (snd (change_balance_userbot delta w))))"
  by (simp add: change_balance_userbot_def load_config_def save_config_def set_balance_def Let_def)

section \<open>Purchase verification\<close>

text \<open>
  C1. A balance difference of zero is to be a failed attempt that is tried again. With an
  expected price of 1 star the code does otherwise: the difference 0 is within the
  tolerance of 1, so the attempt is a success and the purchase routine reports a purchase
  after one purchase call, although the balance (1000 stars before and after) did not
  move. With an expected price of 150 stars and the same replies the difference 0 is a
  failure, the call is issued three times and the routine reports no purchase.
\<close>

theorem zero_delta_price_one_reported_success:
  "classify_balance_diff 1 0 = PurchaseSuccess \<and>
   fst (buy_resold_gift_userbot 777 ''https://t.me/nft/Heart-1'' (Some 42) None 1 3 example_world) \<and>
   send_resold_gift_log
     (snd (buy_resold_gift_userbot 777 ''https://t.me/nft/Heart-1'' (Some 42) None 1 3 example_world))
     = [(''https://t.me/nft/Heart-1'', RecipientUser 42, 1)] \<and>
   classify_balance_diff 150 0 = PurchaseFailed \<and>
   \<not> fst (buy_resold_gift_userbot 777 ''https://t.me/nft/Heart-1'' (Some 42) None 150 3 example_world) \<and>
   length (send_resold_gift_log
     (snd (buy_resold_gift_userbot 777 ''https://t.me/nft/Heart-1'' (Some 42) None 150 3
             example_world))) = 3"
  by code_simp


text \<open>
  C9. When the cached balance is below the expected price, the purchase routine returns
  \<open>False\<close>, issues no purchase call, and stores \<^verbatim>\<open>USERBOT.ENABLED = False\<close>; the
  system-active flag is left as it was.
\<close>

theorem buy_low_cached_balance:
  assumes "BALANCE (USERBOT (config_json w)) < expected_price"
  shows "fst (buy_resold_gift_userbot uid gl tu tc expected_price retries w) = False \<and>
         send_resold_gift_log (snd (buy_resold_gift_userbot uid gl tu tc expected_price retries w))
           = send_resold_gift_log w \<and>
         \<not> ENABLED (USERBOT (config_json
              (snd (buy_resold_gift_userbot uid gl tu tc expected_price retries w)))) \<and>
         ACTIVE (config_json (snd (buy_resold_gift_userbot uid gl tu tc expected_price retries w)))
           = ACTIVE (config_json w)"
  using assms
  by (simp add: buy_resold_gift_userbot_def get_valid_config_def load_config_def save_config_def
      simple_validate_config_def Let_def)

theorem buy_low_cached_balance_witness:
  "BALANCE (USERBOT (config_json example_world)) < 1500 \<and>
   fst (buy_resold_gift_userbot 777 ''https://t.me/nft/Heart-1'' (Some 42) None 1500 3
          example_world) = False \<and>
   send_resold_gift_log
     (snd (buy_resold_gift_userbot 777 ''https://t.me/nft/Heart-1'' (Some 42) None 1500 3
             example_world)) = [] \<and>
   \<not> ENABLED (USERBOT (config_json
        (snd (buy_resold_gift_userbot 777 ''https://t.me/nft/Heart-1'' (Some 42) None 1500 3
                example_world)))) \<and>
   ACTIVE (config_json
     (snd (buy_resold_gift_userbot 777 ''https://t.me/nft/Heart-1'' (Some 42) None 1500 3
             example_world)))"
proof -
  have low: "BALANCE (USERBOT (config_json example_world)) < 1500"
    by (simp add: example_world_def example_config_def example_userbot_def)
  have log0: "send_resold_gift_log example_world = []"
    by (simp add: example_world_def)
  have act: "ACTIVE (config_json example_world)"
    by (simp add: example_world_def example_config_def)
  show ?thesis
    using low log0 act
      buy_low_cached_balance [OF low, of 777 "''https://t.me/nft/Heart-1''" "Some 42" None 3]
    by simp
qed

section \<open>Balance reconciliation\<close>

text \<open>
  C8, as the code has it. \<^verbatim>\<open>refresh_balance\<close> stores 0 as the cached balance and returns 0
  when \<^verbatim>\<open>API_ID\<close>, \<^verbatim>\<open>API_HASH\<close> or \<^verbatim>\<open>PHONE\<close> is missing, when no user id is passed and
  \<^verbatim>\<open>USER_ID\<close> is missing, or when the session is not active for the user id in use. When
  the sender is configured and active and the platform answers the balance query, it
  queries the platform once, stores the answer converted by \<^verbatim>\<open>int(float(...))\<close> as the
  cached balance and returns it; the converted answer is the answer itself for a whole
  number below \<open>2 ^ 53\<close> in magnitude.
\<close>

theorem refresh_balance_reconciles:
  "((\<not> truthy_int (API_ID (USERBOT (config_json w))) \<or>
     \<not> truthy_str (API_HASH (USERBOT (config_json w))) \<or>
     \<not> truthy_str (PHONE (USERBOT (config_json w))) \<or>
     (user_id = None \<and> \<not> truthy_int (USER_ID (USERBOT (config_json w)))) \<or>
     (\<exists>u. effective_user_id user_id (config_json w) = Some u \<and> \<not> is_userbot_active u w))
    \<longrightarrow> fst (refresh_balance user_id w) = 0 \<and>
        BALANCE (USERBOT (config_json (snd (refresh_balance user_id w)))) = 0) \<and>
   (truthy_int (API_ID (USERBOT (config_json w))) \<and>
    truthy_str (API_HASH (USERBOT (config_json w))) \<and>
    truthy_str (PHONE (USERBOT (config_json w))) \<and>
    effective_user_id user_id (config_json w) = Some uid \<and>
    is_userbot_active uid w \<and>
    get_me_reply w (get_me_calls w) \<and>
    ((get_stars_balance_reply w (get_stars_balance_calls w) = StarsInt b \<and> \<bar>b\<bar> < 2 ^ 53) \<or>
     (\<exists>n f. get_stars_balance_reply w (get_stars_balance_calls w) = StarsInt n \<and>
            py_float_of_int n = Some f \<and> py_int_of_float f = Some b) \<or>
     (\<exists>f. get_stars_balance_reply w (get_stars_balance_calls w) = StarsFloat f \<and>
            py_int_of_float f = Some b))
    \<longrightarrow> fst (refresh_balance user_id w) = b \<and>
        BALANCE (USERBOT (config_json (snd (refresh_balance user_id w)))) = b \<and>
        get_stars_balance_calls (snd (refresh_balance user_id w)) = Suc (get_stars_balance_calls w))"
proof (intro conjI impI)
  assume bad: "\<not> truthy_int (API_ID (USERBOT (config_json w))) \<or>
     \<not> truthy_str (API_HASH (USERBOT (config_json w))) \<or>
     \<not> truthy_str (PHONE (USERBOT (config_json w))) \<or>
     (user_id = None \<and> \<not> truthy_int (USER_ID (USERBOT (config_json w)))) \<or>
     (\<exists>u. effective_user_id user_id (config_json w) = Some u \<and> \<not> is_userbot_active u w)"
  have zero: "refresh_balance user_id w = (0, save_config (set_balance 0 (config_json w)) w)"
  proof (cases "effective_user_id user_id (config_json w)")
    case None
    then show ?thesis by (simp add: refresh_balance_def load_config_def Let_def)
  next
    case (Some u)
    then have "\<not> (user_id = None \<and> \<not> truthy_int (USER_ID (USERBOT (config_json w))))"
      by (auto simp: effective_user_id_def split: option.splits if_splits)
    with bad Some have "\<not> has_session (config_json w) \<or> \<not> is_userbot_active u w"
      by (auto simp: has_session_def)
    with Some show ?thesis by (auto simp: refresh_balance_def load_config_def Let_def)
  qed
  show "fst (refresh_balance user_id w) = 0" by (simp add: zero)
  show "BALANCE (USERBOT (config_json (snd (refresh_balance user_id w)))) = 0"
    by (simp add: zero save_config_def set_balance_def)
next
  assume ok: "truthy_int (API_ID (USERBOT (config_json w))) \<and>
    truthy_str (API_HASH (USERBOT (config_json w))) \<and>
    truthy_str (PHONE (USERBOT (config_json w))) \<and>
    effective_user_id user_id (config_json w) = Some uid \<and>
    is_userbot_active uid w \<and>
    get_me_reply w (get_me_calls w) \<and>
    ((get_stars_balance_reply w (get_stars_balance_calls w) = StarsInt b \<and> \<bar>b\<bar> < 2 ^ 53) \<or>
     (\<exists>n f. get_stars_balance_reply w (get_stars_balance_calls w) = StarsInt n \<and>
            py_float_of_int n = Some f \<and> py_int_of_float f = Some b) \<or>
     (\<exists>f. get_stars_balance_reply w (get_stars_balance_calls w) = StarsFloat f \<and>
            py_int_of_float f = Some b))"
  then have conv: "(\<exists>n f. get_stars_balance_reply w (get_stars_balance_calls w) = StarsInt n \<and>
            py_float_of_int n = Some f \<and> py_int_of_float f = Some b) \<or>
     (\<exists>f. get_stars_balance_reply w (get_stars_balance_calls w) = StarsFloat f \<and>
            py_int_of_float f = Some b)"
    using py_float_of_int_small [of b] by auto
  from ok have act: "is_userbot_active uid w" and me: "get_me_reply w (get_me_calls w)" by simp_all
  have fetch: "stars_balance_int uid w =
     (Some b, w\<lparr>get_me_calls := Suc (get_me_calls w),
               get_stars_balance_calls := Suc (get_stars_balance_calls w)\<rparr>)"
    by (rule stars_balance_int_ok [OF act me conv])
  from ok have hs: "has_session (config_json w)" by (simp add: has_session_def)
  have val: "refresh_balance user_id w =
     (b, save_config (set_balance b (config_json w))
           (w\<lparr>get_me_calls := Suc (get_me_calls w),
              get_stars_balance_calls := Suc (get_stars_balance_calls w)\<rparr>))"
    using ok hs fetch by (simp add: refresh_balance_def load_config_def Let_def)
  show "fst (refresh_balance user_id w) = b" by (simp add: val)
  show "BALANCE (USERBOT (config_json (snd (refresh_balance user_id w)))) = b"
    by (simp add: val save_config_def set_balance_def)
  show "get_stars_balance_calls (snd (refresh_balance user_id w)) = Suc (get_stars_balance_calls w)"
    by (simp add: val save_config_def)
qed

theorem refresh_balance_reconciles_witness:
  "fst (refresh_balance (Some 777) example_world) = 1000 \<and>
   BALANCE (USERBOT (config_json (snd (refresh_balance (Some 777) example_world)))) = 1000 \<and>
   fst (refresh_balance (Some 777) unconfigured_world) = 0 \<and>
   BALANCE (USERBOT (config_json (snd (refresh_balance (Some 777) unconfigured_world)))) = 0"
  using refresh_balance_reconciles [of example_world "Some 777" 777 1000]
    refresh_balance_reconciles [of unconfigured_world "Some 777" 777 0]
  by (simp add: example_world_def example_config_def example_userbot_def unconfigured_world_def
      truthy_int_def truthy_str_def effective_user_id_def is_userbot_active_iff)

text \<open>
  With a user id passed, a missing \<^verbatim>\<open>USER_ID\<close> does not give 0: the balance of 1000 stars
  is fetched, stored and returned. And an answer of \<open>2 ^ 53 + 1\<close> stars is stored and
  returned as \<open>2 ^ 53\<close>.
\<close>

theorem refresh_balance_user_id_counterexample:
  "\<not> truthy_int (USER_ID (USERBOT (config_json no_user_id_world))) \<and>
   fst (refresh_balance (Some 777) no_user_id_world) = 1000 \<and>
   BALANCE (USERBOT (config_json (snd (refresh_balance (Some 777) no_user_id_world)))) = 1000 \<and>
   get_stars_balance_reply huge_balance_world (get_stars_balance_calls huge_balance_world)
     = StarsInt 9007199254740993 \<and>
   fst (refresh_balance (Some 777) huge_balance_world) = 9007199254740992"
  by code_simp


section \<open>The purchase cycle\<close>

text \<open>
  C7, as the code has it. When the system is active, the sender session is active and the
  configuration has no enabled target, a cycle of the purchase worker changes nothing (the
  system-active flag stays set and no message is sent) and goes on to the next cycle;
  however many cycles are run from such a state, the loop is not left.
\<close>

theorem no_enabled_targets_idles:
  assumes "ACTIVE (config_json w)" and "is_userbot_active uid w"
    and "enabled_targets (get_valid_config w) = []"
  shows "purchase_cycle uid w = (NextCycle, w) \<and> purchase_cycles n uid w = (False, w)"
proof -
  have one: "purchase_cycle uid w = (NextCycle, w)"
    using assms by (simp add: purchase_cycle_def Let_def)
  have "purchase_cycles n uid w = (False, w)"
    by (induction n) (simp_all add: one)
  with one show ?thesis by simp
qed

theorem no_enabled_targets_idles_witness:
  "purchase_cycle 777 no_targets_world = (NextCycle, no_targets_world) \<and>
   purchase_cycles 5 777 no_targets_world = (False, no_targets_world)"
proof -
  have a: "ACTIVE (config_json no_targets_world)"
    by (simp add: no_targets_world_def example_world_def example_config_def)
  have b: "is_userbot_active 777 no_targets_world"
    by (simp add: no_targets_world_def example_world_def is_userbot_active_iff)
  have c: "enabled_targets (get_valid_config no_targets_world) = []"
    by (simp add: no_targets_world_def example_world_def example_config_def enabled_targets_def
        get_valid_config_def load_config_def simple_validate_config_def)
  show ?thesis using no_enabled_targets_idles [OF a b c, of 5] by simp
qed

text \<open>
  With an active system, an active sender and an empty target list, the cycle does not end
  the loop, leaves the system-active flag set and sends no message.
\<close>

theorem no_enabled_targets_counterexample:
  "fst (purchase_cycle 777 no_targets_world) = NextCycle \<and>
   ACTIVE (config_json (snd (purchase_cycle 777 no_targets_world))) \<and>
   sent_messages (snd (purchase_cycle 777 no_targets_world)) = []"
  by code_simp

text \<open>
  C5. Take a cycle that reaches its cache scan (the system is active, the sender session is
  active, a target is enabled and a recipient is set) with at least one cached candidate,
  in which no purchase succeeds. The worker then calls \<^verbatim>\<open>refresh_balance\<close>: the balance
  queries counted at the end of the cycle are those counted after that call, and when the
  sender is configured and active after the scan and the platform answers the query, the
  reconciled balance is the platform's answer, fetched by one more query, not the cached
  value. If the reconciled balance is strictly below the lowest candidate price, the cycle
  ends the loop with the system-active flag stored as false and the operator told (the
  "not enough stars" message, then the menu). Otherwise the cycle ends in the state
  \<^verbatim>\<open>refresh_balance\<close> left, with the reconciled balance stored, and the loop goes on.
\<close>

theorem failed_cycle_reconciles:
  assumes "ACTIVE (config_json w)" and "is_userbot_active uid w"
    and "enabled_targets (get_valid_config w) \<noteq> []"
    and "truthy_int (TARGET_USER_ID (config_json w)) \<or> truthy_str (TARGET_CHAT_ID (config_json w))"
    and "get_all_available_target_gifts w \<noteq> []"
    and "try_candidates uid (TARGET_USER_ID (config_json w)) (TARGET_CHAT_ID (config_json w))
           (get_all_available_target_gifts w) w = (False, w1)"
    and "refresh_balance (Some uid) w1 = (bal, w2)"
  shows "(bal < min_list (map price (get_all_available_target_gifts w)) \<longrightarrow>
            fst (purchase_cycle uid w) = Break \<and>
            \<not> ACTIVE (config_json (snd (purchase_cycle uid w))) \<and>
            sent_messages (snd (purchase_cycle uid w)) =
              sent_messages w2 @
                [NotEnoughStars bal (min_list (map price (get_all_available_target_gifts w))),
                 MainMenu] \<and>
            fst (purchase_cycles (Suc n) uid w)) \<and>
         (\<not> bal < min_list (map price (get_all_available_target_gifts w)) \<longrightarrow>
            purchase_cycle uid w = (NextCycle, w2) \<and>
            BALANCE (USERBOT (config_json w2)) = bal) \<and>
         get_stars_balance_calls (snd (purchase_cycle uid w)) = get_stars_balance_calls w2 \<and>
         (has_session (config_json w1) \<and> is_userbot_active uid w1 \<and>
          get_me_reply w1 (get_me_calls w1) \<and>
          get_stars_balance_reply w1 (get_stars_balance_calls w1) = StarsInt k \<and>
          py_float_of_int k = Some f \<and> py_int_of_float f = Some b
          \<longrightarrow> bal = b \<and> get_stars_balance_calls w2 = Suc (get_stars_balance_calls w1))"
proof -
  let ?m = "min_list (map price (get_all_available_target_gifts w))"
  have cyc: "purchase_cycle uid w =
      (if bal < ?m then (Break, hard_stop (get_valid_config w) (NotEnoughStars bal ?m) w2)
       else (NextCycle, w2))"
    using assms by (auto simp: purchase_cycle_def Let_def)
  have p: "BALANCE (USERBOT (config_json w2)) = bal"
    using refresh_balance_persists [of "Some uid" w1] assms(7) by simp
  have q: "bal = b \<and> get_stars_balance_calls w2 = Suc (get_stars_balance_calls w1)"
    if h: "has_session (config_json w1) \<and> is_userbot_active uid w1 \<and>
          get_me_reply w1 (get_me_calls w1) \<and>
          get_stars_balance_reply w1 (get_stars_balance_calls w1) = StarsInt k \<and>
          py_float_of_int k = Some f \<and> py_int_of_float f = Some b"
  proof -
    have "stars_balance_int uid w1 =
       (Some b, w1\<lparr>get_me_calls := Suc (get_me_calls w1),
                  get_stars_balance_calls := Suc (get_stars_balance_calls w1)\<rparr>)"
      using h by (intro stars_balance_int_ok) auto
    then show ?thesis
      using h assms(7)
      by (auto simp: refresh_balance_def load_config_def effective_user_id_def Let_def save_config_def)
  qed
  show ?thesis
    using p q
    by (simp add: cyc hard_stop_def send_main_menu_def send_message_def save_config_def)
qed

theorem failed_cycle_reconciles_witness:
  "BALANCE (USERBOT (config_json stale_balance_world)) = 500 \<and>
   map price (get_all_available_target_gifts stale_balance_world) = [150] \<and>
   fst (refresh_balance (Some 777)
          (snd (try_candidates 777 (Some 42) None
                  (get_all_available_target_gifts stale_balance_world) stale_balance_world))) = 100 \<and>
   fst (purchase_cycle 777 stale_balance_world) = Break \<and>
   \<not> ACTIVE (config_json (snd (purchase_cycle 777 stale_balance_world))) \<and>
   sent_messages (snd (purchase_cycle 777 stale_balance_world)) = [NotEnoughStars 100 150, MainMenu] \<and>
   get_stars_balance_calls (snd (purchase_cycle 777 stale_balance_world)) = 2 \<and>
   fst (purchase_cycles 1 777 stale_balance_world)"
proof -
  let ?w = stale_balance_world
  let ?gs = "get_all_available_target_gifts ?w"
  let ?t = "try_candidates 777 (TARGET_USER_ID (config_json ?w)) (TARGET_CHAT_ID (config_json ?w)) ?gs ?w"
  let ?r = "refresh_balance (Some 777) (snd ?t)"
  have tu: "TARGET_USER_ID (config_json ?w) = Some 42" "TARGET_CHAT_ID (config_json ?w) = None"
    by (simp_all add: stale_balance_world_def example_world_def example_config_def)
  have a: "ACTIVE (config_json ?w)"
    by (simp add: stale_balance_world_def example_world_def example_config_def)
  have b: "is_userbot_active 777 ?w"
    by (simp add: stale_balance_world_def example_world_def is_userbot_active_iff)
  have c: "enabled_targets (get_valid_config ?w) \<noteq> []"
    by code_simp
  have d: "truthy_int (TARGET_USER_ID (config_json ?w)) \<or> truthy_str (TARGET_CHAT_ID (config_json ?w))"
    by (simp add: tu truthy_int_def)
  have ps: "map price ?gs = [150]" by code_simp
  then have e: "?gs \<noteq> []" by auto
  have nf: "\<not> fst ?t" by code_simp
  then have f: "?t = (False, snd ?t)" by (simp add: prod_eq_iff)
  have g: "?r = (fst ?r, snd ?r)" by simp
  have h1: "has_session (config_json (snd ?t))" by code_simp
  have h2: "is_userbot_active 777 (snd ?t)" by code_simp
  have h3: "get_me_reply (snd ?t) (get_me_calls (snd ?t))" by code_simp
  have h4: "get_stars_balance_reply (snd ?t) (get_stars_balance_calls (snd ?t)) = StarsInt 100"
    by code_simp
  have h5: "py_float_of_int 100 = Some (Finite 100 0)" by code_simp
  have h6: "py_int_of_float (Finite 100 0) = Some 100" by simp
  have h7: "get_stars_balance_calls (snd ?t) = 1" by code_simp
  have sm: "sent_messages (snd ?r) = []" by code_simp
  have bl: "BALANCE (USERBOT (config_json ?w)) = 500"
    by (simp add: stale_balance_world_def example_world_def example_config_def example_userbot_def)
  note inst = failed_cycle_reconciles [OF a b c d e f g, where k = 100 and f = "Finite 100 0" and b = 100 and n = 0]
  have bal: "fst ?r = 100" using inst h1 h2 h3 h4 h5 h6 by simp
  show ?thesis
    using inst h1 h2 h3 h4 h5 h6 h7 ps sm bl bal tu by simp
qed


text \<open>
  C2, as the code has it. The candidates of a cycle are in ascending price order and the
  purchase calls of the cycle are issued in that order: their star counts are those of
  cached candidates and ascend, and there are at most three calls for each candidate, so
  at most \<open>3 * N\<close> for \<open>N\<close> candidates. A valid candidate whose purchase is not reported
  successful is followed by the next candidate in the same cycle. A valid candidate whose
  purchase is reported successful ends the scan: one message reports it, no further
  purchase call is issued, and the candidates after it are not looked at. So a cycle
  reports at most one purchase to the operator.
\<close>

theorem purchase_cycle_one_success:
  "sorted (map price (get_all_available_target_gifts w)) \<and>
   (\<exists>calls. send_resold_gift_log (snd (purchase_cycle uid w)) = send_resold_gift_log w @ calls \<and>
            length calls \<le> 3 * length (get_all_available_target_gifts w) \<and>
            set (map call_price calls) \<subseteq> set (map price (get_all_available_target_gifts w)) \<and>
            sorted (map call_price calls)) \<and>
   length (filter is_gift_sent (sent_messages (snd (purchase_cycle uid w))))
     \<le> Suc (length (filter is_gift_sent (sent_messages w))) \<and>
   (link g \<noteq> [] \<and> price g \<le> target_max_price g \<and>
    validate_gift_purchase g tu tc (target_max_price g) \<and>
    buy_resold_gift_userbot uid (link g) tu tc (price g) 3 v = (False, v1)
      \<longrightarrow> try_candidates uid tu tc (g # rest) v = try_candidates uid tu tc rest v1) \<and>
   (link g \<noteq> [] \<and> price g \<le> target_max_price g \<and>
    validate_gift_purchase g tu tc (target_max_price g) \<and>
    buy_resold_gift_userbot uid (link g) tu tc (price g) 3 v = (True, v1)
      \<longrightarrow> fst (try_candidates uid tu tc (g # rest) v) \<and>
          send_resold_gift_log (snd (try_candidates uid tu tc (g # rest) v))
            = send_resold_gift_log v1 \<and>
          sent_messages (snd (try_candidates uid tu tc (g # rest) v))
            = sent_messages v1 @ [GiftSent (name g) (price g), MainMenu]) \<and>
   (fst (try_candidates uid tu tc gs v) \<longrightarrow>
      try_candidates uid tu tc (gs @ later) v = try_candidates uid tu tc gs v)"
proof -
  let ?gs = "get_all_available_target_gifts w"
  let ?c = "get_valid_config w"
  have srt: "sorted (map price ?gs)"
    by (simp add: get_all_available_target_gifts_def)
  obtain ok w1 where t: "try_candidates uid (TARGET_USER_ID ?c) (TARGET_CHAT_ID ?c) ?gs w = (ok, w1)"
    by (cases "try_candidates uid (TARGET_USER_ID ?c) (TARGET_CHAT_ID ?c) ?gs w")
  obtain calls where c: "send_resold_gift_log w1 = send_resold_gift_log w @ calls"
      "length calls \<le> 3 * length ?gs"
      "set (map call_price calls) \<subseteq> set (map price ?gs)"
      "sorted (map call_price calls)"
    using try_candidates_effects [of uid "TARGET_USER_ID ?c" "TARGET_CHAT_ID ?c" ?gs w] t srt
    by auto
  have e: "length (filter is_gift_sent (sent_messages w1)) \<le> Suc (length (filter is_gift_sent (sent_messages w)))"
    "\<not> ok \<Longrightarrow> sent_messages w1 = sent_messages w"
    using try_candidates_effects [of uid "TARGET_USER_ID ?c" "TARGET_CHAT_ID ?c" ?gs w] t
    by (auto split: if_splits)
  obtain bal w2 where r: "refresh_balance (Some uid) w1 = (bal, w2)"
    by (cases "refresh_balance (Some uid) w1")
  have f: "send_resold_gift_log w2 = send_resold_gift_log w1" "sent_messages w2 = sent_messages w1"
    using refresh_balance_frame [of "Some uid" w1] r by simp_all
  have lg: "send_resold_gift_log (snd (purchase_cycle uid w)) = send_resold_gift_log w
          \<or> send_resold_gift_log (snd (purchase_cycle uid w)) = send_resold_gift_log w1"
    using t r f
    by (cases ok) (simp_all add: purchase_cycle_def Let_def hard_stop_def send_main_menu_def send_message_def)
  have nil: "\<exists>calls. send_resold_gift_log w = send_resold_gift_log w @ calls \<and>
            length calls \<le> 3 * length ?gs \<and>
            set (map call_price calls) \<subseteq> set (map price ?gs) \<and>
            sorted (map call_price calls)"
    by (intro exI [of _ "[]"]) simp
  have some: "\<exists>calls. send_resold_gift_log w1 = send_resold_gift_log w @ calls \<and>
            length calls \<le> 3 * length ?gs \<and>
            set (map call_price calls) \<subseteq> set (map price ?gs) \<and>
            sorted (map call_price calls)"
    using c by (intro exI [of _ calls]) simp
  have b: "\<exists>calls. send_resold_gift_log (snd (purchase_cycle uid w)) = send_resold_gift_log w @ calls \<and>
            length calls \<le> 3 * length ?gs \<and>
            set (map call_price calls) \<subseteq> set (map price ?gs) \<and>
            sorted (map call_price calls)"
    using lg nil some by metis
  have a: "length (filter is_gift_sent (sent_messages (snd (purchase_cycle uid w))))
     \<le> Suc (length (filter is_gift_sent (sent_messages w)))"
    using t e r f
    by (cases ok) (simp_all add: purchase_cycle_def Let_def hard_stop_def send_main_menu_def send_message_def)
  have nxt: "link g \<noteq> [] \<and> price g \<le> target_max_price g \<and>
    validate_gift_purchase g tu tc (target_max_price g) \<and>
    buy_resold_gift_userbot uid (link g) tu tc (price g) 3 v = (False, v1)
      \<longrightarrow> try_candidates uid tu tc (g # rest) v = try_candidates uid tu tc rest v1"
    by simp
  have stp: "link g \<noteq> [] \<and> price g \<le> target_max_price g \<and>
    validate_gift_purchase g tu tc (target_max_price g) \<and>
    buy_resold_gift_userbot uid (link g) tu tc (price g) 3 v = (True, v1)
      \<longrightarrow> fst (try_candidates uid tu tc (g # rest) v) \<and>
          send_resold_gift_log (snd (try_candidates uid tu tc (g # rest) v))
            = send_resold_gift_log v1 \<and>
          sent_messages (snd (try_candidates uid tu tc (g # rest) v))
            = sent_messages v1 @ [GiftSent (name g) (price g), MainMenu]"
    by (simp add: send_main_menu_def send_message_def)
  show ?thesis using srt a b nxt stp try_candidates_stops by blast
qed

theorem purchase_cycle_one_success_witness:
  "get_all_available_target_gifts two_candidates_world =
     [example_candidate 0 100 ''https://t.me/nft/Heart-1'',
      example_candidate 1 200 ''https://t.me/nft/Heart-2''] \<and>
   sorted (map price (get_all_available_target_gifts two_candidates_world)) \<and>
   length (filter is_gift_sent (sent_messages (snd (purchase_cycle 777 two_candidates_world)))) \<le> 1 \<and>
   try_candidates 777 (Some 42) None
     [example_candidate 0 100 ''https://t.me/nft/Heart-1'',
      example_candidate 1 200 ''https://t.me/nft/Heart-2''] two_candidates_world
   = try_candidates 777 (Some 42) None [example_candidate 1 200 ''https://t.me/nft/Heart-2'']
       (snd (buy_resold_gift_userbot 777 ''https://t.me/nft/Heart-1'' (Some 42) None 100 3
               two_candidates_world)) \<and>
   fst (try_candidates 777 (Some 42) None
          [example_candidate 0 100 ''https://t.me/nft/Heart-1'',
           example_candidate 1 200 ''https://t.me/nft/Heart-2''] two_candidates_world) \<and>
   try_candidates 777 (Some 42) None
     ([example_candidate 0 100 ''https://t.me/nft/Heart-1'',
       example_candidate 1 200 ''https://t.me/nft/Heart-2''] @
      [example_candidate 2 300 ''https://t.me/nft/Heart-3'']) two_candidates_world
   = try_candidates 777 (Some 42) None
       [example_candidate 0 100 ''https://t.me/nft/Heart-1'',
        example_candidate 1 200 ''https://t.me/nft/Heart-2''] two_candidates_world"
proof -
  let ?w = two_candidates_world
  let ?c1 = "example_candidate 0 100 ''https://t.me/nft/Heart-1''"
  let ?c2 = "example_candidate 1 200 ''https://t.me/nft/Heart-2''"
  let ?c3 = "example_candidate 2 300 ''https://t.me/nft/Heart-3''"
  let ?b = "buy_resold_gift_userbot 777 ''https://t.me/nft/Heart-1'' (Some 42) None 100 3 ?w"
  have gs: "get_all_available_target_gifts ?w = [?c1, ?c2]" by code_simp
  have f1: "link ?c1 = ''https://t.me/nft/Heart-1''" "price ?c1 = 100" "target_max_price ?c1 = 1000"
    by (simp_all add: example_candidate_def)
  have v1: "validate_gift_purchase ?c1 (Some 42) None 1000" by code_simp
  have nb: "\<not> fst ?b" by code_simp
  then have b: "?b = (False, snd ?b)" by (simp add: prod_eq_iff)
  have ok: "fst (try_candidates 777 (Some 42) None [?c1, ?c2] ?w)" by code_simp
  have e: "sent_messages ?w = []"
    by (simp add: two_candidates_world_def example_world_def)
  show ?thesis
    using gs f1 v1 b ok e
      purchase_cycle_one_success [of ?w 777 ?c1 "Some 42" None ?w "snd ?b" "[?c2]"
        "[?c1, ?c2]" "[?c3]"]
    by simp
qed

text \<open>
  Two affordable candidates are cached. The purchase call for the cheaper one is rejected
  by the platform; the worker goes on to the second candidate in the same cycle and buys
  it. The cycle issues two purchase calls, not one.
\<close>

theorem two_purchase_calls_counterexample:
  "length (get_all_available_target_gifts two_candidates_world) = 2 \<and>
   fst (purchase_cycle 777 two_candidates_world) = NextCycle \<and>
   send_resold_gift_log (snd (purchase_cycle 777 two_candidates_world)) =
     [(''https://t.me/nft/Heart-1'', RecipientUser 42, 100),
      (''https://t.me/nft/Heart-2'', RecipientUser 42, 200)] \<and>
   sent_messages (snd (purchase_cycle 777 two_candidates_world)) = [GiftSent ''Heart'' 200, MainMenu]"
  by code_simp


section \<open>The listing cache\<close>

text \<open>
  C3. In every state the cache can reach, each entry with a listing has a listing price at
  most the \<^verbatim>\<open>max_price\<close> recorded in the entry's target data: the cache starts empty and
  both writers, \<^verbatim>\<open>update_target_cache\<close> and \<^verbatim>\<open>clear_targets_cache\<close>, keep it so.
\<close>

theorem cache_ceiling_invariant:
  "cache_reachable w \<Longrightarrow> ceiling_invariant (targets_cache w)"
proof (induction rule: cache_reachable.induct)
  case (cache_empty w)
  then show ?case by (simp add: ceiling_invariant_def)
next
  case (cache_update w user_id idx tgt)
  then show ?case by (simp add: update_target_cache_ceiling)
next
  case (cache_clear w)
  show ?case by (simp add: clear_targets_cache_def ceiling_invariant_def)
next
  case (cache_kept w w')
  then show ?case by simp
qed

theorem cache_ceiling_invariant_witness:
  "ceiling_invariant
     (targets_cache (snd (update_target_cache 777 0 example_target (search_world 900)))) \<and>
   map_option gift_data
     (map_of (targets_cache (snd (update_target_cache 777 0 example_target (search_world 900)))) 0)
     = Some (Some (normalize_resale_gift (star_listing 900)))"
proof -
  have e: "targets_cache (search_world 900) = []"
    by (simp add: search_world_def example_world_def)
  have r: "cache_reachable (snd (update_target_cache 777 0 example_target (search_world 900)))"
    by (intro cache_update cache_empty e)
  have p: "map_option gift_data
     (map_of (targets_cache (snd (update_target_cache 777 0 example_target (search_world 900)))) 0)
     = Some (Some (normalize_resale_gift (star_listing 900)))"
    by code_simp
  show ?thesis using cache_ceiling_invariant [OF r] p by simp
qed

text \<open>
  C4. Let the search for a target be run (its \<^verbatim>\<open>GIFT_ID\<close> is a number, the sender session
  is active and enabled and answers the liveness check) and let \<open>g\<close> be the first listing
  of the result that is sold for stars at a positive price. If the price of \<open>g\<close> is above
  the target's \<^verbatim>\<open>MAX_PRICE\<close>, the poller returns \<open>None\<close>, caches an entry without a listing
  for the target, and has taken no listing after \<open>g\<close> from the generator. If it is within
  \<^verbatim>\<open>MAX_PRICE\<close>, the poller returns \<open>g\<close> (normalised) and caches it.
\<close>

theorem poller_ceiling_rejection:
  assumes "py_int (GIFT_ID tgt) = Some gid"
    and "is_userbot_active uid w"
    and "ENABLED (USERBOT (config_json w))"
    and "get_me_reply w (get_me_calls w)"
    and "search_gifts_for_resale_reply w (search_gifts_for_resale_calls w) gid
           = map Yield skipped @ Yield g # rest"
    and "\<forall>x \<in> set skipped. \<not> (available_for_stars (normalize_resale_gift x) \<and>
                                  price (normalize_resale_gift x) > 0)"
    and "available_for_stars (normalize_resale_gift g) \<and> price (normalize_resale_gift g) > 0"
  shows "(price (normalize_resale_gift g) > MAX_PRICE tgt \<longrightarrow>
            fst (update_target_cache uid idx tgt w) = None \<and>
            map_option gift_data (map_of (targets_cache (snd (update_target_cache uid idx tgt w))) idx)
              = Some None \<and>
            snd (scan_gifts (Some (MAX_PRICE tgt))
                   (search_gifts_for_resale_reply w (search_gifts_for_resale_calls w) gid) 0)
              = length skipped + 1) \<and>
         (price (normalize_resale_gift g) \<le> MAX_PRICE tgt \<longrightarrow>
            fst (update_target_cache uid idx tgt w) = Some (normalize_resale_gift g) \<and>
            map_option gift_data (map_of (targets_cache (snd (update_target_cache uid idx tgt w))) idx)
              = Some (Some (normalize_resale_gift g)))"
proof -
  let ?gen = "search_gifts_for_resale_reply w (search_gifts_for_resale_calls w) gid"
  let ?n = "normalize_resale_gift g"
  have ne: "GIFT_ID tgt \<noteq> []" using assms(1) by (auto simp: py_int_def)
  have sc: "scan_gifts (Some (MAX_PRICE tgt)) ?gen 0 =
      (if price ?n \<le> MAX_PRICE tgt then (Some ?n, length skipped + 1) else (None, length skipped + 1))"
    using assms(5,7) scan_gifts_skips [OF assms(6), of "Some (MAX_PRICE tgt)" "Yield g # rest" 0]
    by (simp add: Let_def)
  have cl: "get_userbot_client uid w = (True, w\<lparr>get_me_calls := Suc (get_me_calls w)\<rparr>)"
    using assms(2,4) by (simp add: get_userbot_client_def Let_def)
  have en: "ENABLED (USERBOT (get_valid_config w))"
    using assms(3) by (simp add: get_valid_config_def load_config_def simple_validate_config_def)
  have fc: "fst (find_cheapest_gift_by_id uid gid (Some (MAX_PRICE tgt)) w) =
      (if price ?n \<le> MAX_PRICE tgt then Some ?n else None)"
    using assms(2) en cl sc by (simp add: find_cheapest_gift_by_id_def Let_def)
  obtain found w1 where f: "find_cheapest_gift_by_id uid gid (Some (MAX_PRICE tgt)) w = (found, w1)"
    by (cases "find_cheapest_gift_by_id uid gid (Some (MAX_PRICE tgt)) w")
  have fv: "found = (if price ?n \<le> MAX_PRICE tgt then Some ?n else None)"
    using fc f by simp
  have u: "update_target_cache uid idx tgt w =
     (found, w1\<lparr>targets_cache := AList.update idx
                  \<lparr>gift_data = found,
                   target_info = \<lparr>gift_id = gid, gift_name = GIFT_NAME tgt,
                                  max_price = MAX_PRICE tgt\<rparr>\<rparr> (targets_cache w1)\<rparr>)"
    using ne assms(1) f by (simp add: update_target_cache_def)
  show ?thesis
    by (simp add: u fv sc AList.update_conv')
qed

theorem poller_ceiling_rejection_witness:
  "fst (update_target_cache 777 0 example_target (search_world 2000)) = None \<and>
   map_option gift_data
     (map_of (targets_cache (snd (update_target_cache 777 0 example_target (search_world 2000)))) 0)
     = Some None \<and>
   snd (scan_gifts (Some 1000)
          (search_gifts_for_resale_reply (search_world 2000)
             (search_gifts_for_resale_calls (search_world 2000)) 5170145012310081615) 0) = 2 \<and>
   fst (update_target_cache 777 0 example_target (search_world 900))
     = Some (normalize_resale_gift (star_listing 900)) \<and>
   map_option gift_data
     (map_of (targets_cache (snd (update_target_cache 777 0 example_target (search_world 900)))) 0)
     = Some (Some (normalize_resale_gift (star_listing 900)))"
proof -
  have id: "py_int (GIFT_ID example_target) = Some 5170145012310081615"
    by code_simp
  have act: "is_userbot_active 777 (search_world p)" for p
    by (simp add: search_world_def example_world_def is_userbot_active_iff)
  have en: "ENABLED (USERBOT (config_json (search_world p)))" for p
    by (simp add: search_world_def example_world_def example_config_def example_userbot_def)
  have me: "get_me_reply (search_world p) (get_me_calls (search_world p))" for p
    by (simp add: search_world_def example_world_def)
  have gen: "search_gifts_for_resale_reply (search_world p)
               (search_gifts_for_resale_calls (search_world p)) 5170145012310081615
             = map Yield [ton_listing] @ Yield (star_listing p) # [Yield (star_listing 1)]" for p
    by (simp add: search_world_def example_world_def)
  have sk: "\<forall>x \<in> set [ton_listing]. \<not> (available_for_stars (normalize_resale_gift x) \<and>
                                          price (normalize_resale_gift x) > 0)"
    by (simp add: ton_listing_def normalize_resale_gift_def)
  have el: "available_for_stars (normalize_resale_gift (star_listing p)) \<and>
            price (normalize_resale_gift (star_listing p)) > 0" if "p > 0" for p
    using that by (simp add: star_listing_def normalize_resale_gift_def)
  have pr: "price (normalize_resale_gift (star_listing p)) = p" for p
    by (simp add: star_listing_def normalize_resale_gift_def)
  have mx: "MAX_PRICE example_target = 1000" by (simp add: example_target_def)
  show ?thesis
    using poller_ceiling_rejection [OF id act en me gen sk el, of 2000 0]
      poller_ceiling_rejection [OF id act en me gen sk el, of 900 0]
    by (simp add: pr mx)
qed

section \<open>The supervisor's task set\<close>

text \<open>
  C6, as the code has it. In every state the supervisor can reach, the tracked task set
  has at most two elements. A start that succeeds leaves exactly two tasks, a stop leaves
  none, and the completion callback removes the finished task and nothing else.
\<close>

theorem supervisor_task_set_size:
  assumes "supervisor_reachable s"
  shows "finite (running_tasks s) \<and> card (running_tasks s) \<le> 2 \<and>
         (fst (start_workers uid w s) \<longrightarrow> card (running_tasks (snd (start_workers uid w s))) = 2) \<and>
         running_tasks (stop_workers s) = {} \<and>
         running_tasks (task_done_callback t s) = running_tasks s - {t}"
proof -
  have inv: "finite (running_tasks s) \<and> card (running_tasks s) \<le> 2"
    using assms
  proof (induction rule: supervisor_reachable.induct)
    case sup_init
    show ?case by simp
  next
    case (sup_start s user_id w)
    then show ?case by (simp add: start_workers_result)
  next
    case (sup_stop s)
    then show ?case by (simp add: stop_workers_def)
  next
    case (sup_done s t)
    then have "card (running_tasks s - {t}) \<le> card (running_tasks s)"
      by (simp add: card_Diff1_le)
    with sup_done show ?case by (simp add: task_done_callback_def)
  qed
  have st: "fst (start_workers uid w s) \<longrightarrow> card (running_tasks (snd (start_workers uid w s))) = 2"
    by (simp add: start_workers_result)
  have sp: "running_tasks (stop_workers s) = {}" by (simp add: stop_workers_def)
  have dn: "running_tasks (task_done_callback t s) = running_tasks s - {t}"
    by (simp add: task_done_callback_def)
  show ?thesis using inv st sp dn by blast
qed

theorem supervisor_task_set_size_witness:
  "finite (running_tasks (task_done_callback (Task ''gift_purchase_worker'' 0)
              (snd (start_workers 777 example_world no_workers)))) \<and>
   card (running_tasks (task_done_callback (Task ''gift_purchase_worker'' 0)
              (snd (start_workers 777 example_world no_workers)))) \<le> 2 \<and>
   running_tasks (stop_workers (task_done_callback (Task ''gift_purchase_worker'' 0)
              (snd (start_workers 777 example_world no_workers)))) = {}"
proof -
  have r: "supervisor_reachable (task_done_callback (Task ''gift_purchase_worker'' 0)
              (snd (start_workers 777 example_world no_workers)))"
    unfolding no_workers_def by (intro sup_done sup_start sup_init)
  show ?thesis
    using supervisor_task_set_size [OF r] by blast
qed

text \<open>
  The workers are started in a state where the balance is too low for the only candidate.
  The purchase worker ends its loop in the first cycle (hard stop); its completion callback
  removes it from the set, which is left with one task, the poller, and
  \<^verbatim>\<open>are_workers_running\<close> still answers true.
\<close>

theorem one_worker_left_counterexample:
  "fst (start_workers 777 low_balance_world no_workers) \<and>
   fst (gift_purchase_worker 1 777 low_balance_world) \<and>
   card (running_tasks
           (task_done_callback (Task ''gift_purchase_worker'' 0)
              (snd (start_workers 777 low_balance_world no_workers)))) = 1 \<and>
   are_workers_running
     (task_done_callback (Task ''gift_purchase_worker'' 0)
        (snd (start_workers 777 low_balance_world no_workers)))"
proof -
  have a: "ACTIVE (config_json low_balance_world)"
    "is_userbot_active 777 low_balance_world"
    "truthy_int (TARGET_USER_ID (config_json low_balance_world))"
    "enabled_targets (get_valid_config low_balance_world) \<noteq> []"
    by (simp_all add: low_balance_world_def example_world_def example_config_def
        example_target_def is_userbot_active_iff truthy_int_def enabled_targets_def
        get_valid_config_def load_config_def simple_validate_config_def)
  have s: "start_workers 777 low_balance_world no_workers =
     (True, \<lparr>running_tasks = {Task ''gift_purchase_worker'' 0, Task ''userbot_targets_updater'' 1},
             tasks_created = 2\<rparr>)"
    using a by (simp add: start_workers_result no_workers_def)
  have w: "fst (gift_purchase_worker 1 777 low_balance_world)"
    by code_simp
  show ?thesis
    using w by (simp add: s task_done_callback_def are_workers_running_def)
qed

end
